theory Spec2Isabelle
  imports Complex_Main "HOL-Library.Char_ord"
begin

chapter \<open>The notebooks as functions\<close>

section \<open>Errors\<close>

text \<open>
  The notebooks contain no \<^verbatim>\<open>try\<close> statement, so every exception leaves the cell that
  raised it. An exception is a value of type \<open>error\<close>; a computation that may raise
  returns \<open>error + 'a\<close>, with \<open>Inl\<close> for the exception.
\<close>

datatype error =
    KeyError
  | ZeroDivisionError
  | ValueError
  | OverflowError
  | OSError
  | RequestException

section \<open>Character-level encoding\<close>

text \<open>
  The data preparation cell, identical in every notebook:
  \<^verbatim>\<open>
  chars = sorted(list(set(data)))
  vocab_size = len(chars)
  stoi = { ch:i for i,ch in enumerate(chars) }
  itos = { i:ch for i,ch in enumerate(chars) }
  def encode(s):
      return [stoi[c] for c in s]
  def decode(l):
      return ''.join([itos[i] for i in l])
  \<close>
  In every notebook but the bigram one \<^verbatim>\<open>decode\<close> first converts its argument by
  \<^verbatim>\<open>l = np.array(l)\<close>, which changes neither the indices nor their order.
  A Python string is a sequence of code points ordered by code point; the model takes
  any linearly ordered type of characters. A dictionary comprehension stores its
  items in order, a later one replacing an earlier one with the same key. A missing
  key raises \<^verbatim>\<open>KeyError\<close>, in \<^verbatim>\<open>encode\<close> and in \<^verbatim>\<open>decode\<close> alike.
\<close>

definition chars :: "'c::linorder list \<Rightarrow> 'c list" where
  "chars data = sort (remdups data)"

definition vocab_size :: "'c::linorder list \<Rightarrow> nat" where
  "vocab_size data = length (chars data)"

definition dict_of :: "('k \<times> 'v) list \<Rightarrow> ('k \<rightharpoonup> 'v)" where
  "dict_of items = fold (\<lambda>kv m. m(fst kv \<mapsto> snd kv)) items Map.empty"

definition stoi :: "'c::linorder list \<Rightarrow> ('c \<rightharpoonup> nat)" where
  "stoi data = dict_of (map (\<lambda>(i, ch). (ch, i)) (List.enumerate 0 (chars data)))"

definition itos :: "'c::linorder list \<Rightarrow> (nat \<rightharpoonup> 'c)" where
  "itos data = dict_of (map (\<lambda>(i, ch). (i, ch)) (List.enumerate 0 (chars data)))"

fun encode :: "'c::linorder list \<Rightarrow> 'c list \<Rightarrow> error + nat list" where
  "encode data [] = Inr []"
| "encode data (c # s) =
     (case stoi data c of
        None \<Rightarrow> Inl KeyError
      | Some i \<Rightarrow> (case encode data s of Inl e \<Rightarrow> Inl e | Inr l \<Rightarrow> Inr (i # l)))"

fun decode :: "'c::linorder list \<Rightarrow> nat list \<Rightarrow> error + 'c list" where
  "decode data [] = Inr []"
| "decode data (i # l) =
     (case itos data i of
        None \<Rightarrow> Inl KeyError
      | Some ch \<Rightarrow> (case decode data l of Inl e \<Rightarrow> Inl e | Inr s \<Rightarrow> Inr (ch # s)))"

section \<open>The dataset cell\<close>

text \<open>
  The first part of the data preparation cell, identical in every notebook:
  \<^verbatim>\<open>
  input_file_path = os.path.join('./data/shakespeare_char/input.txt')
  if not os.path.exists(input_file_path):
      data_url = 'https://raw.githubusercontent.com/karpathy/char-rnn/master/data/tinyshakespeare/input.txt'
      with open(input_file_path, 'w') as f:
          f.write(requests.get(data_url).text)

  with open(input_file_path, 'r') as f:
      data = f.read()
  \<close>
  The file system is a map from paths to contents, as on a POSIX system, where
  writing in text mode stores the text as it is. What the outside world does is a
  parameter \<open>env\<close>: the answer of the HTTP request, and for each operation on a file
  the exception it raises, if any. The cell returns the file system it leaves, the
  operations it attempted, in order, and either the exception that left the cell or
  the value bound to \<^verbatim>\<open>data\<close>.
\<close>

type_synonym path = string

type_synonym filesystem = "path \<rightharpoonup> string"

datatype io_event =
    Exists path
  | OpenWrite path
  | HttpGet string
  | Write path string
  | OpenRead path
  | Read path

record env =
  http_get :: "string \<Rightarrow> error + string"
  open_write_error :: "path \<Rightarrow> error option"
  write_error :: "path \<Rightarrow> error option"
  open_read_error :: "path \<Rightarrow> error option"
  read_error :: "path \<Rightarrow> error option"

definition input_file_path :: path where
  "input_file_path = ''./data/shakespeare_char/input.txt''"

definition data_url :: string where
  "data_url = ''https://raw.githubusercontent.com/karpathy/char-rnn/master/data/tinyshakespeare/input.txt''"

text \<open>\<^verbatim>\<open>open(p, 'w')\<close> creates the file or truncates it.\<close>

definition open_write :: "env \<Rightarrow> filesystem \<Rightarrow> path \<Rightarrow> error + filesystem" where
  "open_write env fs p =
     (case open_write_error env p of Some e \<Rightarrow> Inl e | None \<Rightarrow> Inr (fs(p \<mapsto> [])))"

definition file_write :: "env \<Rightarrow> filesystem \<Rightarrow> path \<Rightarrow> string \<Rightarrow> error + filesystem" where
  "file_write env fs p txt =
     (case write_error env p of
        Some e \<Rightarrow> Inl e
      | None \<Rightarrow> Inr (fs(p \<mapsto> (case fs p of None \<Rightarrow> txt | Some old \<Rightarrow> old @ txt))))"

text \<open>\<^verbatim>\<open>open(p, 'r')\<close> of a file that does not exist raises \<^verbatim>\<open>FileNotFoundError\<close>, an \<^verbatim>\<open>OSError\<close>.\<close>

definition open_read :: "env \<Rightarrow> filesystem \<Rightarrow> path \<Rightarrow> error + unit" where
  "open_read env fs p =
     (if p \<notin> dom fs then Inl OSError
      else case open_read_error env p of Some e \<Rightarrow> Inl e | None \<Rightarrow> Inr ())"

text \<open>
  The file is opened in text mode with the default \<^verbatim>\<open>newline=None\<close>: \<^verbatim>\<open>f.read()\<close> returns
  the content with every carriage return followed by a line feed, and every other
  carriage return, replaced by one line feed.
\<close>

fun universal_newlines :: "string \<Rightarrow> string" where
  "universal_newlines [] = []"
| "universal_newlines [c] = [if c = CHR 0x0D then CHR 0x0A else c]"
| "universal_newlines (c # d # cs) =
     (if c = CHR 0x0D
      then CHR 0x0A # (if d = CHR 0x0A then universal_newlines cs
                       else universal_newlines (d # cs))
      else c # universal_newlines (d # cs))"

definition file_read :: "env \<Rightarrow> filesystem \<Rightarrow> path \<Rightarrow> error + string" where
  "file_read env fs p =
     (case read_error env p of
        Some e \<Rightarrow> Inl e
      | None \<Rightarrow>
          (case fs p of None \<Rightarrow> Inl OSError | Some txt \<Rightarrow> Inr (universal_newlines txt)))"

definition read_data ::
  "env \<Rightarrow> filesystem \<Rightarrow> io_event list \<Rightarrow> filesystem \<times> io_event list \<times> (error + string)" where
  "read_data env fs done =
     (case open_read env fs input_file_path of
        Inl e \<Rightarrow> (fs, done @ [OpenRead input_file_path], Inl e)
      | Inr _ \<Rightarrow>
          (fs, done @ [OpenRead input_file_path, Read input_file_path],
           file_read env fs input_file_path))"

definition dataset_cell ::
  "env \<Rightarrow> filesystem \<Rightarrow> filesystem \<times> io_event list \<times> (error + string)" where
  "dataset_cell env fs =
     (if input_file_path \<notin> dom fs then
        (case open_write env fs input_file_path of
           Inl e \<Rightarrow> (fs, [Exists input_file_path, OpenWrite input_file_path], Inl e)
         | Inr fs1 \<Rightarrow>
             (case http_get env data_url of
                Inl e \<Rightarrow>
                  (fs1, [Exists input_file_path, OpenWrite input_file_path, HttpGet data_url],
                   Inl e)
              | Inr txt \<Rightarrow>
                  (case file_write env fs1 input_file_path txt of
                     Inl e \<Rightarrow>
                       (fs1, [Exists input_file_path, OpenWrite input_file_path,
                              HttpGet data_url, Write input_file_path txt], Inl e)
                   | Inr fs2 \<Rightarrow>
                       read_data env fs2
                         [Exists input_file_path, OpenWrite input_file_path,
                          HttpGet data_url, Write input_file_path txt])))
      else read_data env fs [Exists input_file_path])"

text \<open>The files an attempted operation touches, and the attempted writes of a trace.\<close>

fun event_path :: "io_event \<Rightarrow> path option" where
  "event_path (Exists p) = Some p"
| "event_path (OpenWrite p) = Some p"
| "event_path (HttpGet u) = None"
| "event_path (Write p txt) = Some p"
| "event_path (OpenRead p) = Some p"
| "event_path (Read p) = Some p"

fun is_write :: "io_event \<Rightarrow> bool" where
  "is_write (Write p txt) = True"
| "is_write _ = False"

fun is_read :: "io_event \<Rightarrow> bool" where
  "is_read (Read p) = True"
| "is_read _ = False"

section \<open>Floating-point numbers\<close>

text \<open>
  The entries of a JAX array are floating-point numbers: a finite number, one of the
  two infinities, or NaN. The two zeros are one value here; no operation of the
  notebooks tells them apart but a division by zero, which takes the zero as
  positive. An operation on finite numbers returns the exact result rounded to the
  format. The rounding is a parameter, \<open>rnd\<close>: it fixes the precision and the range,
  so that a result too large for the format is an infinity. The exponential of a
  finite number is a parameter too, \<open>exp_of\<close>. On the special values the operations
  are those of IEEE 754: a zero times an infinity, the difference of two equal
  infinities and a zero divided by a zero are NaN, and NaN propagates.
\<close>

datatype fl = NaN | PInf | NInf | Fin real

record fpu =
  rnd :: "real \<Rightarrow> fl"
  exp_of :: "real \<Rightarrow> fl"


fun fneg :: "fl \<Rightarrow> fl" where
  "fneg NaN = NaN"
| "fneg PInf = NInf"
| "fneg NInf = PInf"
| "fneg (Fin a) = Fin (- a)"

fun fadd :: "fpu \<Rightarrow> fl \<Rightarrow> fl \<Rightarrow> fl" where
  "fadd u (Fin a) (Fin b) = rnd u (a + b)"
| "fadd u NaN _ = NaN"
| "fadd u _ NaN = NaN"
| "fadd u PInf NInf = NaN"
| "fadd u NInf PInf = NaN"
| "fadd u PInf _ = PInf"
| "fadd u _ PInf = PInf"
| "fadd u NInf _ = NInf"
| "fadd u _ NInf = NInf"

definition fsub :: "fpu \<Rightarrow> fl \<Rightarrow> fl \<Rightarrow> fl" where
  "fsub u a b = fadd u a (fneg b)"

fun fmul :: "fpu \<Rightarrow> fl \<Rightarrow> fl \<Rightarrow> fl" where
  "fmul u (Fin a) (Fin b) = rnd u (a * b)"
| "fmul u NaN _ = NaN"
| "fmul u _ NaN = NaN"
| "fmul u PInf (Fin b) = (if b = 0 then NaN else if 0 < b then PInf else NInf)"
| "fmul u NInf (Fin b) = (if b = 0 then NaN else if 0 < b then NInf else PInf)"
| "fmul u (Fin a) PInf = (if a = 0 then NaN else if 0 < a then PInf else NInf)"
| "fmul u (Fin a) NInf = (if a = 0 then NaN else if 0 < a then NInf else PInf)"
| "fmul u PInf PInf = PInf"
| "fmul u PInf NInf = NInf"
| "fmul u NInf PInf = NInf"
| "fmul u NInf NInf = PInf"

fun fdiv :: "fpu \<Rightarrow> fl \<Rightarrow> fl \<Rightarrow> fl" where
  "fdiv u (Fin a) (Fin b) =
     (if b = 0 then (if a = 0 then NaN else if 0 < a then PInf else NInf) else rnd u (a / b))"
| "fdiv u NaN _ = NaN"
| "fdiv u _ NaN = NaN"
| "fdiv u (Fin a) PInf = Fin 0"
| "fdiv u (Fin a) NInf = Fin 0"
| "fdiv u PInf (Fin b) = (if 0 \<le> b then PInf else NInf)"
| "fdiv u NInf (Fin b) = (if 0 \<le> b then NInf else PInf)"
| "fdiv u PInf PInf = NaN"
| "fdiv u PInf NInf = NaN"
| "fdiv u NInf PInf = NaN"
| "fdiv u NInf NInf = NaN"

fun fexp :: "fpu \<Rightarrow> fl \<Rightarrow> fl" where
  "fexp u NaN = NaN"
| "fexp u PInf = PInf"
| "fexp u NInf = Fin 0"
| "fexp u (Fin a) = exp_of u a"

text \<open>The maximum of \<^verbatim>\<open>jnp.max\<close> and \<^verbatim>\<open>jnp.maximum\<close> propagates NaN.\<close>

fun fmax :: "fl \<Rightarrow> fl \<Rightarrow> fl" where
  "fmax (Fin a) (Fin b) = Fin (max a b)"
| "fmax NaN _ = NaN"
| "fmax _ NaN = NaN"
| "fmax PInf _ = PInf"
| "fmax _ PInf = PInf"
| "fmax NInf b = b"
| "fmax a NInf = a"

text \<open>
  A rounding that is exact on the range of float32 and overflows where float32 does,
  from \<^verbatim>\<open>2**128 - 2**103\<close> on. On the numbers of the examples below it returns what
  float32 returns.
\<close>

definition float32_range :: "real \<Rightarrow> fl" where
  "float32_range r =
     (if 2 ^ 128 - 2 ^ 103 \<le> r then PInf
      else if r \<le> - (2 ^ 128 - 2 ^ 103) then NInf
      else Fin r)"

definition float32_fpu :: fpu where
  "float32_fpu = \<lparr>rnd = float32_range, exp_of = (\<lambda>r. float32_range (exp r))\<rparr>"

section \<open>Arrays\<close>

text \<open>
  A JAX array of rank three, of shape \<open>(B, T, C)\<close>, is a list of \<open>B\<close> matrices, each a list
  of \<open>T\<close> rows of \<open>C\<close> floating-point numbers. A sum adds from the left, starting from
  zero.
\<close>

type_synonym matrix = "fl list list"

type_synonym array3 = "fl list list list"

definition shape3 :: "'a list list list \<Rightarrow> nat \<Rightarrow> nat \<Rightarrow> nat \<Rightarrow> bool" where
  "shape3 x B T C \<longleftrightarrow>
     length x = B \<and> (\<forall>m \<in> set x. length m = T \<and> (\<forall>r \<in> set m. length r = C))"

definition shape2 :: "'a list list \<Rightarrow> nat \<Rightarrow> nat \<Rightarrow> bool" where
  "shape2 m T C \<longleftrightarrow> length m = T \<and> (\<forall>r \<in> set m. length r = C)"

definition nrows :: "'a list list list \<Rightarrow> nat" where
  "nrows x = (case x of [] \<Rightarrow> 0 | m # _ \<Rightarrow> length m)"

definition ncols :: "'a list list \<Rightarrow> nat" where
  "ncols m = (case m of [] \<Rightarrow> 0 | r # _ \<Rightarrow> length r)"

definition column :: "nat \<Rightarrow> 'a list list \<Rightarrow> 'a list" where
  "column j m = map (\<lambda>r. r ! j) m"

definition fsum :: "fpu \<Rightarrow> fl list \<Rightarrow> fl" where
  "fsum u r = foldl (fadd u) (Fin 0) r"

definition dot :: "fpu \<Rightarrow> fl list \<Rightarrow> fl list \<Rightarrow> fl" where
  "dot u v w = fsum u (map2 (fmul u) v w)"

text \<open>\<^verbatim>\<open>a @ b\<close> on matrices, and on arrays of rank three, where it is the product of
  the matrices of each batch element.\<close>

definition matmul2 :: "fpu \<Rightarrow> matrix \<Rightarrow> matrix \<Rightarrow> matrix" where
  "matmul2 u a b = map (\<lambda>r. map (\<lambda>j. dot u r (column j b)) [0..<ncols b]) a"

definition matmul :: "fpu \<Rightarrow> array3 \<Rightarrow> array3 \<Rightarrow> array3" where
  "matmul u a b = map (\<lambda>(m, n). matmul2 u m n) (zip a b)"

text \<open>\<^verbatim>\<open>k.transpose((0, -1, -2))\<close> swaps the last two axes.\<close>

definition transpose_last :: "array3 \<Rightarrow> array3" where
  "transpose_last k = map (\<lambda>m. map (\<lambda>j. column j m) [0..<ncols m]) k"

definition scale :: "fpu \<Rightarrow> array3 \<Rightarrow> fl \<Rightarrow> array3" where
  "scale u w c = map (map (map (\<lambda>v. fmul u v c))) w"

text \<open>\<^verbatim>\<open>jnp.tril(jnp.ones(shape=(T, T), dtype=bool))\<close>: true on and below the diagonal.\<close>

definition tril :: "nat \<Rightarrow> bool list list" where
  "tril T = map (\<lambda>t. map (\<lambda>s. s \<le> t) [0..<T]) [0..<T]"

text \<open>\<^verbatim>\<open>jnp.repeat(tril[None, ...], repeats=B, axis=0)\<close>\<close>

definition repeat_batch :: "'a \<Rightarrow> nat \<Rightarrow> 'a list" where
  "repeat_batch m B = replicate B m"

text \<open>
  Modelled from the spec: \<^verbatim>\<open>masked_fill\<close> is imported from \<^verbatim>\<open>helper_funcs\<close>, a module of
  the repository that is not among the sources. The claim on causal masking and the
  notebooks' own words ("the future weights are then altered to have zero affinity")
  describe it: where the mask is true the entry is kept, elsewhere it is replaced
  by the fill value. The output cell of \<^verbatim>\<open>weights[0]\<close> in the self-attention notebook
  shows the same: zeros above the diagonal after the softmax, and finite weights on
  and below it, so that the entries are selected and not blended by arithmetic with
  the mask, which would turn a kept entry into NaN, by zero times infinity.
\<close>

definition masked_fill :: "bool list list list \<Rightarrow> array3 \<Rightarrow> fl \<Rightarrow> array3" where
  "masked_fill msk a fill =
     map (\<lambda>(mm, am). map (\<lambda>(mr, ar). map (\<lambda>(m, v). if m then v else fill) (zip mr ar))
                        (zip mm am))
         (zip msk a)"

text \<open>
  \<^verbatim>\<open>jax.nn.softmax(weights, axis=-1)\<close>, as the library computes it: the maximum of the
  row is subtracted from each entry, the differences are exponentiated and divided
  by their sum.
  \<^verbatim>\<open>
  x_max = jnp.max(x, axis, where=where, initial=-jnp.inf, keepdims=True)
  unnormalized = jnp.exp(x - x_max)
  result = unnormalized / jnp.sum(unnormalized, axis, where=where, keepdims=True)
  \<close>
\<close>

definition softmax_row :: "fpu \<Rightarrow> fl list \<Rightarrow> fl list" where
  "softmax_row u r =
     (let x_max = foldl fmax NInf r;
          unnormalized = map (\<lambda>a. fexp u (fsub u a x_max)) r
      in map (\<lambda>e. fdiv u e (fsum u unnormalized)) unnormalized)"

definition softmax :: "fpu \<Rightarrow> array3 \<Rightarrow> array3" where
  "softmax u w = map (map (softmax_row u)) w"

text \<open>\<^verbatim>\<open>jnp.concatenate(arrays, axis=-1)\<close> raises \<^verbatim>\<open>ValueError\<close> on an empty list.\<close>

definition concatenate_last :: "array3 list \<Rightarrow> error + array3" where
  "concatenate_last arrays =
     (case arrays of
        [] \<Rightarrow> Inl ValueError
      | a # _ \<Rightarrow>
          Inr (map (\<lambda>b. map (\<lambda>t. concat (map (\<lambda>h. h ! b ! t) arrays)) [0..<length (a ! b)])
                   [0..<length a]))"

section \<open>Layers of the library\<close>

text \<open>
  \<^verbatim>\<open>nn.Dense(features, use_bias=False)\<close> multiplies the last axis by its kernel, of
  shape \<open>(C, features)\<close>; \<^verbatim>\<open>nn.Dense(features)\<close> adds its bias, of length \<open>features\<close>. The
  kernel has one row for each feature of the input. On each call the layer evaluates
  the initializer of its kernel, \<^verbatim>\<open>lecun_normal\<close>, to learn the shape that the kernel
  must have, and the initializer divides by the number of input features: for an
  input with no feature, whose kernel has no row, the layer raises
  \<^verbatim>\<open>ZeroDivisionError\<close>.
\<close>

definition Dense_row :: "fpu \<Rightarrow> nat \<Rightarrow> matrix \<Rightarrow> fl list \<Rightarrow> fl list" where
  "Dense_row u features kern r = map (\<lambda>j. dot u r (column j kern)) [0..<features]"

definition Dense_no_bias :: "fpu \<Rightarrow> nat \<Rightarrow> matrix \<Rightarrow> array3 \<Rightarrow> error + array3" where
  "Dense_no_bias u features kern x =
     (if kern = [] then Inl ZeroDivisionError
      else Inr (map (map (Dense_row u features kern)) x))"

definition Dense :: "fpu \<Rightarrow> nat \<Rightarrow> matrix \<Rightarrow> fl list \<Rightarrow> array3 \<Rightarrow> error + array3" where
  "Dense u features kern bias x =
     (if kern = [] then Inl ZeroDivisionError
      else Inr (map (map (\<lambda>r. map2 (fadd u) (Dense_row u features kern r) bias)) x))"

section \<open>Self-attention\<close>

text \<open>
  The class \<^verbatim>\<open>Head\<close> of the self-attention, multi-headed self-attention and transformer
  decoder notebooks:
  \<^verbatim>\<open>
  def __call__(self, x):
      B,T,C = x.shape
      key = nn.Dense(self.head_size, use_bias=False)
      k = key(x) # (B,T,C)
      query = nn.Dense(self.head_size, use_bias=False)
      q = query(x) # (B,T,C)
      weights =  q @ k.transpose((0, -1, -2)) * self.head_size**-0.5
      tril = jnp.tril(jnp.ones(shape=(T, T), dtype=bool))
      tril = jnp.repeat(tril[None, ...], repeats=B, axis=0)
      weights = masked_fill(tril, weights, -jnp.inf)
      weights = jax.nn.softmax(weights, axis=-1)
      value = nn.Dense(self.head_size, use_bias=False)
      v = value(x)
      out = weights @ v
      return out
  \<close>
  The parameters of the three dense layers are a record. \<^verbatim>\<open>self.head_size**-0.5\<close> is a
  power of a Python integer: for \<^verbatim>\<open>head_size = 0\<close> it raises \<^verbatim>\<open>ZeroDivisionError\<close>, and
  otherwise its value is rounded to the format of the array. \<open>Head_weights\<close> is the
  body up to the softmax, \<open>Head\<close> the whole body.
\<close>

record head_params =
  key_kernel :: matrix
  query_kernel :: matrix
  value_kernel :: matrix

definition Head_weights :: "fpu \<Rightarrow> nat \<Rightarrow> head_params \<Rightarrow> array3 \<Rightarrow> error + array3" where
  "Head_weights u head_size p x =
     (let B = length x; T = nrows x in
      case Dense_no_bias u head_size (key_kernel p) x of
        Inl e \<Rightarrow> Inl e
      | Inr k \<Rightarrow>
          (case Dense_no_bias u head_size (query_kernel p) x of
             Inl e \<Rightarrow> Inl e
           | Inr q \<Rightarrow>
               (let qk = matmul u q (transpose_last k)
                in if head_size = 0 then Inl ZeroDivisionError
                   else
                     let weights = scale u qk (rnd u (real head_size powr (- 1 / 2)));
                         tril_B = repeat_batch (tril T) B;
                         weights = masked_fill tril_B weights NInf
                     in Inr (softmax u weights))))"

definition Head :: "fpu \<Rightarrow> nat \<Rightarrow> head_params \<Rightarrow> array3 \<Rightarrow> error + array3" where
  "Head u head_size p x =
     (case Head_weights u head_size p x of
        Inl e \<Rightarrow> Inl e
      | Inr weights \<Rightarrow>
          (case Dense_no_bias u head_size (value_kernel p) x of
             Inl e \<Rightarrow> Inl e
           | Inr v \<Rightarrow> Inr (matmul u weights v)))"

text \<open>
  The class \<^verbatim>\<open>MultiHeadedAttention\<close> of the multi-headed self-attention notebook:
  \<^verbatim>\<open>
  def __call__(self, x):
      heads = [Head(self.head_size) for _ in range(self.num_heads)]
      heads_out = [h(x) for h in heads]
      combined_logits = jnp.concatenate(heads_out, axis=-1)
      return combined_logits
  \<close>
  The parameters of head \<open>i\<close> are \<open>ps i\<close>. The heads run in order; the first exception
  leaves the call.
\<close>

fun sequence :: "(error + 'a) list \<Rightarrow> error + 'a list" where
  "sequence [] = Inr []"
| "sequence (r # rs) =
     (case r of
        Inl e \<Rightarrow> Inl e
      | Inr a \<Rightarrow> (case sequence rs of Inl e \<Rightarrow> Inl e | Inr as \<Rightarrow> Inr (a # as)))"

definition MultiHeadedAttention ::
  "fpu \<Rightarrow> nat \<Rightarrow> nat \<Rightarrow> (nat \<Rightarrow> head_params) \<Rightarrow> array3 \<Rightarrow> error + array3" where
  "MultiHeadedAttention u num_heads head_size ps x =
     (case sequence (map (\<lambda>i. Head u head_size (ps i) x) [0..<num_heads]) of
        Inl e \<Rightarrow> Inl e
      | Inr heads_out \<Rightarrow> concatenate_last heads_out)"

text \<open>
  In \<^verbatim>\<open>AttentionLanguageModel.__call__\<close> of the same notebook the block is built and
  applied by
  \<^verbatim>\<open>
  head_size = self.n_embed // self.num_heads
  sa_heads = MultiHeadedAttention(self.num_heads, head_size)
  x = sa_heads(x)
  \<close>
  and the integer division raises \<^verbatim>\<open>ZeroDivisionError\<close> for \<^verbatim>\<open>num_heads = 0\<close>.
\<close>

definition sa_heads ::
  "fpu \<Rightarrow> nat \<Rightarrow> nat \<Rightarrow> (nat \<Rightarrow> head_params) \<Rightarrow> array3 \<Rightarrow> error + array3" where
  "sa_heads u n_embed num_heads ps x =
     (if num_heads = 0 then Inl ZeroDivisionError
      else MultiHeadedAttention u num_heads (n_embed div num_heads) ps x)"

text \<open>
  The kernels of a head for inputs of \<open>C\<close> features have shape \<open>(C, head_size)\<close>; the
  library creates them so and rejects, before the call, parameters of another shape.
  \<open>no_heads\<close> are the parameters of heads of size zero on inputs with no feature.
\<close>

definition head_params_shape :: "nat \<Rightarrow> nat \<Rightarrow> head_params \<Rightarrow> bool" where
  "head_params_shape C hs p \<longleftrightarrow>
     shape2 (key_kernel p) C hs \<and> shape2 (query_kernel p) C hs \<and> shape2 (value_kernel p) C hs"

definition no_heads :: "nat \<Rightarrow> head_params" where
  "no_heads i = \<lparr>key_kernel = [], query_kernel = [], value_kernel = []\<rparr>"

section \<open>The transformer decoder and GPT-2\<close>

text \<open>\<^verbatim>\<open>jax.nn.relu\<close> and \<open>+\<close> act on each entry.\<close>

definition relu :: "array3 \<Rightarrow> array3" where
  "relu x = map (map (map (\<lambda>v. fmax v (Fin 0)))) x"

definition add :: "fpu \<Rightarrow> array3 \<Rightarrow> array3 \<Rightarrow> array3" where
  "add u x y = map2 (map2 (map2 (fadd u))) x y"

text \<open>
  \<^verbatim>\<open>nn.Dropout(rate, deterministic)\<close> returns its input when the rate is zero or the
  layer is deterministic, zeros when the rate is one, and otherwise keeps each entry
  with probability \<open>1 - rate\<close>, divided by \<open>1 - rate\<close>. The sample of the entries to
  keep is an argument; the samples of a network are indexed by the path of the layer
  in the network.
\<close>

type_synonym dropout_rng = "nat list \<Rightarrow> bool list list list"

definition Dropout :: "fpu \<Rightarrow> real \<Rightarrow> bool \<Rightarrow> bool list list list \<Rightarrow> array3 \<Rightarrow> array3" where
  "Dropout u rate deterministic keep inputs =
     (if rate = 0 \<or> deterministic then inputs
      else if rate = 1 then map (map (map (\<lambda>v. Fin 0))) inputs
      else map2 (map2 (map2 (\<lambda>k v. if k then fdiv u v (rnd u (1 - rate)) else Fin 0)))
             keep inputs)"

text \<open>
  \<^verbatim>\<open>nn.LayerNorm\<close> and \<^verbatim>\<open>nn.Embed\<close> are layers of the library that the notebooks only
  compose; they are parameters of the model.
\<close>

record ln_params =
  ln_scale :: "fl list"
  ln_bias :: "fl list"

record library =
  LayerNorm :: "ln_params \<Rightarrow> array3 \<Rightarrow> array3"
  Embed :: "matrix \<Rightarrow> nat list \<Rightarrow> matrix"

record ffwd_params =
  fc1_kernel :: matrix
  fc1_bias :: "fl list"
  fc2_kernel :: matrix
  fc2_bias :: "fl list"

record mha_params =
  heads :: "nat \<Rightarrow> head_params"
  proj_kernel :: matrix
  proj_bias :: "fl list"

record block_params =
  ln1 :: ln_params
  sa :: mha_params
  ln2 :: ln_params
  ffwd :: ffwd_params

record model_params =
  token_embedding_table :: matrix
  position_embedding_table :: matrix
  blocks :: "nat \<Rightarrow> block_params"
  ln_f :: ln_params
  lm_head_kernel :: matrix
  lm_head_bias :: "fl list"

subsection \<open>The transformer decoder notebook\<close>

text \<open>
  \<^verbatim>\<open>
  class FeedForward(nn.Module):
      def __call__(self, x):
          net = nn.Sequential([
              nn.Dense(4 * self.n_embed),
              jax.nn.relu,
              nn.Dense(self.n_embed)
          ])
          x = net(x)
          return x

  class MultiHeadedAttention(nn.Module):
      def __call__(self, x):
          heads = [Head(self.head_size) for _ in range(self.num_heads)]
          heads_out = [h(x) for h in heads]
          combined_logits = jnp.concatenate(heads_out, axis=-1)
          proj = nn.Dense(self.n_embed)
          logits = proj(combined_logits)
          return logits

  class Block(nn.Module):
      def __call__(self, x):
          head_size = self.n_embed // self.num_heads
          sa_heads = MultiHeadedAttention(self.num_heads, head_size, self.n_embed)
          x = x + sa_heads(nn.LayerNorm()(x))
          ffwd = FeedForward(self.n_embed)
          x = x + ffwd(nn.LayerNorm()(x))
          return x
  \<close>
  The class \<^verbatim>\<open>Head\<close> of this notebook is the one above.
\<close>

definition FeedForward :: "fpu \<Rightarrow> nat \<Rightarrow> ffwd_params \<Rightarrow> array3 \<Rightarrow> error + array3" where
  "FeedForward u n_embed p x =
     (case Dense u (4 * n_embed) (fc1_kernel p) (fc1_bias p) x of
        Inl e \<Rightarrow> Inl e
      | Inr h \<Rightarrow> Dense u n_embed (fc2_kernel p) (fc2_bias p) (relu h))"

definition MultiHeadedAttention_proj ::
  "fpu \<Rightarrow> nat \<Rightarrow> nat \<Rightarrow> nat \<Rightarrow> mha_params \<Rightarrow> array3 \<Rightarrow> error + array3" where
  "MultiHeadedAttention_proj u num_heads head_size n_embed p x =
     (case sequence (map (\<lambda>i. Head u head_size (heads p i) x) [0..<num_heads]) of
        Inl e \<Rightarrow> Inl e
      | Inr heads_out \<Rightarrow>
          (case concatenate_last heads_out of
             Inl e \<Rightarrow> Inl e
           | Inr combined_logits \<Rightarrow>
               Dense u n_embed (proj_kernel p) (proj_bias p) combined_logits))"

definition Block ::
  "fpu \<Rightarrow> library \<Rightarrow> nat \<Rightarrow> nat \<Rightarrow> block_params \<Rightarrow> array3 \<Rightarrow> error + array3" where
  "Block u lib n_embed num_heads p x =
     (if num_heads = 0 then Inl ZeroDivisionError
      else
        let head_size = n_embed div num_heads in
        case MultiHeadedAttention_proj u num_heads head_size n_embed (sa p)
               (LayerNorm lib (ln1 p) x) of
          Inl e \<Rightarrow> Inl e
        | Inr a \<Rightarrow>
            (let x = add u x a
             in case FeedForward u n_embed (ffwd p) (LayerNorm lib (ln2 p) x) of
                  Inl e \<Rightarrow> Inl e
                | Inr f \<Rightarrow> Inr (add u x f)))"

subsection \<open>The GPT-2 notebook\<close>

text \<open>
  The GPT-2 notebook adds a dropout layer to three classes, each constructed with
  \<^verbatim>\<open>deterministic=True\<close>:
  \<^verbatim>\<open>
  class FeedForward(nn.Module):
      def __call__(self, x):
          net = nn.Sequential([
              nn.Dense(4 * self.n_embed),
              jax.nn.relu,
              nn.Dense(self.n_embed),
              nn.Dropout(rate=self.drop_rate, deterministic=True)
          ])
          x = net(x)
          return x

  class Head(nn.Module):
      def __call__(self, x):
          ...
          weights = jax.nn.softmax(weights, axis=-1)
          drop = nn.Dropout(rate=self.drop_rate, deterministic=True)
          weights = drop(weights)
          value = nn.Dense(self.head_size, use_bias=False)
          v = value(x)
          out = weights @ v
          return out

  class MultiHeadedAttention(nn.Module):
      def __call__(self, x):
          heads = [Head(self.head_size, self.drop_rate) for _ in range(self.num_heads)]
          heads_out = [h(x) for h in heads]
          combined_logits = jnp.concatenate(heads_out, axis=-1)
          proj = nn.Dense(self.n_embed)
          logits = proj(combined_logits)
          drop = nn.Dropout(rate=self.drop_rate, deterministic=True)
          logits = drop(logits)
          return logits
  \<close>
  Each layer takes the samples \<open>rng\<close> and its own path \<open>pth\<close>.
\<close>

definition FeedForward_gpt2 ::
  "fpu \<Rightarrow> nat \<Rightarrow> real \<Rightarrow> dropout_rng \<Rightarrow> nat list \<Rightarrow> ffwd_params \<Rightarrow> array3
     \<Rightarrow> error + array3" where
  "FeedForward_gpt2 u n_embed drop_rate rng pth p x =
     (case Dense u (4 * n_embed) (fc1_kernel p) (fc1_bias p) x of
        Inl e \<Rightarrow> Inl e
      | Inr h \<Rightarrow>
          (case Dense u n_embed (fc2_kernel p) (fc2_bias p) (relu h) of
             Inl e \<Rightarrow> Inl e
           | Inr y \<Rightarrow> Inr (Dropout u drop_rate True (rng pth) y)))"

definition Head_weights_gpt2 ::
  "fpu \<Rightarrow> nat \<Rightarrow> real \<Rightarrow> dropout_rng \<Rightarrow> nat list \<Rightarrow> head_params \<Rightarrow> array3
     \<Rightarrow> error + array3" where
  "Head_weights_gpt2 u head_size drop_rate rng pth p x =
     (let B = length x; T = nrows x in
      case Dense_no_bias u head_size (key_kernel p) x of
        Inl e \<Rightarrow> Inl e
      | Inr k \<Rightarrow>
          (case Dense_no_bias u head_size (query_kernel p) x of
             Inl e \<Rightarrow> Inl e
           | Inr q \<Rightarrow>
               (let qk = matmul u q (transpose_last k)
                in if head_size = 0 then Inl ZeroDivisionError
                   else
                     let weights = scale u qk (rnd u (real head_size powr (- 1 / 2)));
                         tril_B = repeat_batch (tril T) B;
                         weights = masked_fill tril_B weights NInf;
                         weights = softmax u weights
                     in Inr (Dropout u drop_rate True (rng pth) weights))))"

definition Head_gpt2 ::
  "fpu \<Rightarrow> nat \<Rightarrow> real \<Rightarrow> dropout_rng \<Rightarrow> nat list \<Rightarrow> head_params \<Rightarrow> array3
     \<Rightarrow> error + array3" where
  "Head_gpt2 u head_size drop_rate rng pth p x =
     (case Head_weights_gpt2 u head_size drop_rate rng pth p x of
        Inl e \<Rightarrow> Inl e
      | Inr weights \<Rightarrow>
          (case Dense_no_bias u head_size (value_kernel p) x of
             Inl e \<Rightarrow> Inl e
           | Inr v \<Rightarrow> Inr (matmul u weights v)))"

definition MultiHeadedAttention_gpt2 ::
  "fpu \<Rightarrow> nat \<Rightarrow> nat \<Rightarrow> nat \<Rightarrow> real \<Rightarrow> dropout_rng \<Rightarrow> nat list \<Rightarrow> mha_params \<Rightarrow> array3
     \<Rightarrow> error + array3" where
  "MultiHeadedAttention_gpt2 u num_heads head_size n_embed drop_rate rng pth p x =
     (case sequence (map (\<lambda>i. Head_gpt2 u head_size drop_rate rng (pth @ [i]) (heads p i) x)
                         [0..<num_heads]) of
        Inl e \<Rightarrow> Inl e
      | Inr heads_out \<Rightarrow>
          (case concatenate_last heads_out of
             Inl e \<Rightarrow> Inl e
           | Inr combined_logits \<Rightarrow>
               (case Dense u n_embed (proj_kernel p) (proj_bias p) combined_logits of
                  Inl e \<Rightarrow> Inl e
                | Inr logits \<Rightarrow> Inr (Dropout u drop_rate True (rng pth) logits))))"

text \<open>
  \<^verbatim>\<open>
  class Block(nn.Module):
      def __call__(self, x):
          head_size = self.n_embed // self.num_heads
          sa_heads = MultiHeadedAttention(self.num_heads, head_size, self.n_embed, self.drop_rate)
          x = x + sa_heads(nn.LayerNorm()(x))
          ffwd = FeedForward(self.n_embed, self.drop_rate)
          x = x + ffwd(nn.LayerNorm()(x))
          return x
  \<close>
\<close>

definition Block_gpt2 ::
  "fpu \<Rightarrow> library \<Rightarrow> nat \<Rightarrow> nat \<Rightarrow> real \<Rightarrow> dropout_rng \<Rightarrow> nat list \<Rightarrow> block_params
     \<Rightarrow> array3 \<Rightarrow> error + array3" where
  "Block_gpt2 u lib n_embed num_heads drop_rate rng pth p x =
     (if num_heads = 0 then Inl ZeroDivisionError
      else
        let head_size = n_embed div num_heads in
        case MultiHeadedAttention_gpt2 u num_heads head_size n_embed drop_rate rng (pth @ [0])
               (sa p) (LayerNorm lib (ln1 p) x) of
          Inl e \<Rightarrow> Inl e
        | Inr a \<Rightarrow>
            (let x = add u x a
             in case FeedForward_gpt2 u n_embed drop_rate rng (pth @ [1]) (ffwd p)
                       (LayerNorm lib (ln2 p) x) of
                  Inl e \<Rightarrow> Inl e
                | Inr f \<Rightarrow> Inr (add u x f)))"

text \<open>
  \<^verbatim>\<open>
  class GPT2(nn.Module):
      def __call__(self, index_seq):
          B, T = index_seq.shape
          token_embedding_table = nn.Embed(num_embeddings=self.vocab_size, features=self.n_embed)
          token_emb = token_embedding_table(index_seq) # (B, T, C)
          position_embedding_table = nn.Embed(num_embeddings=self.block_size, features=self.n_embed)
          pos_emb = position_embedding_table(jnp.arange(T)) # (T, C)
          x = token_emb + pos_emb # (B, T, C)
          decoder_blocks = [Block(self.n_embed, num_heads=self.num_heads, drop_rate=self.drop_rate)
                            for _ in range(self.num_layers)]
          decoder_blocks.append(nn.LayerNorm())
          blocks = nn.Sequential(decoder_blocks)
          x = blocks(x)
          lm_head = nn.Dense(self.vocab_size)
          logits = lm_head(x) # (B, T, vocab_size)
          return logits
  \<close>
  \<open>embeddings\<close> is the sum of the token and position embeddings, the position
  embedding added to every batch element. \<open>run_blocks\<close> applies the blocks of
  \<^verbatim>\<open>nn.Sequential\<close> in order, block \<open>i\<close> with the parameters \<open>blocks params i\<close>.
\<close>

definition embeddings :: "fpu \<Rightarrow> library \<Rightarrow> model_params \<Rightarrow> nat list list \<Rightarrow> array3" where
  "embeddings u lib params index_seq =
     (let T = ncols index_seq;
          token_emb = map (Embed lib (token_embedding_table params)) index_seq;
          pos_emb = Embed lib (position_embedding_table params) [0..<T]
      in map (\<lambda>m. map2 (map2 (fadd u)) m pos_emb) token_emb)"

fun run_blocks :: "(nat \<Rightarrow> array3 \<Rightarrow> error + array3) \<Rightarrow> nat list \<Rightarrow> array3 \<Rightarrow> error + array3" where
  "run_blocks block [] x = Inr x"
| "run_blocks block (i # is) x =
     (case block i x of Inl e \<Rightarrow> Inl e | Inr y \<Rightarrow> run_blocks block is y)"

definition GPT2 ::
  "fpu \<Rightarrow> library \<Rightarrow> nat \<Rightarrow> nat \<Rightarrow> nat \<Rightarrow> nat \<Rightarrow> real \<Rightarrow> dropout_rng \<Rightarrow> model_params
     \<Rightarrow> nat list list \<Rightarrow> error + array3" where
  "GPT2 u lib vocab n_embed num_heads num_layers drop_rate rng params index_seq =
     (let x = embeddings u lib params index_seq
      in case run_blocks
                (\<lambda>i. Block_gpt2 u lib n_embed num_heads drop_rate rng [i] (blocks params i))
                [0..<num_layers] x of
           Inl e \<Rightarrow> Inl e
         | Inr x \<Rightarrow>
             (let x = LayerNorm lib (ln_f params) x
              in Dense u vocab (lm_head_kernel params) (lm_head_bias params) x))"

text \<open>
  The same network with the dropout layers removed: the blocks are those of the
  transformer decoder notebook.
\<close>

definition GPT2_without_dropout ::
  "fpu \<Rightarrow> library \<Rightarrow> nat \<Rightarrow> nat \<Rightarrow> nat \<Rightarrow> nat \<Rightarrow> model_params \<Rightarrow> nat list list
     \<Rightarrow> error + array3" where
  "GPT2_without_dropout u lib vocab n_embed num_heads num_layers params index_seq =
     (let x = embeddings u lib params index_seq
      in case run_blocks (\<lambda>i. Block u lib n_embed num_heads (blocks params i))
                [0..<num_layers] x of
           Inl e \<Rightarrow> Inl e
         | Inr x \<Rightarrow>
             (let x = LayerNorm lib (ln_f params) x
              in Dense u vocab (lm_head_kernel params) (lm_head_bias params) x))"

section \<open>The attention head, row by row\<close>

text \<open>
  For one batch element \<open>m\<close>, a matrix of \<open>T\<close> rows: the scaled score of query \<open>t\<close> and
  key \<open>s\<close>, row \<open>t\<close> of the scores after the mask, the attention weights, and the
  output. The properties below show that \<open>Head_weights\<close> and \<open>Head\<close> compute these.
\<close>

definition att_score :: "fpu \<Rightarrow> nat \<Rightarrow> head_params \<Rightarrow> matrix \<Rightarrow> nat \<Rightarrow> nat \<Rightarrow> fl" where
  "att_score u hs p m t s =
     fmul u (dot u (Dense_row u hs (query_kernel p) (m ! t))
                   (Dense_row u hs (key_kernel p) (m ! s)))
            (rnd u (real hs powr (- 1 / 2)))"

definition masked_scores :: "fpu \<Rightarrow> nat \<Rightarrow> head_params \<Rightarrow> matrix \<Rightarrow> nat \<Rightarrow> fl list" where
  "masked_scores u hs p m t =
     map (\<lambda>s. if s \<le> t then att_score u hs p m t s else NInf) [0..<length m]"

definition weights2 :: "fpu \<Rightarrow> nat \<Rightarrow> head_params \<Rightarrow> matrix \<Rightarrow> matrix" where
  "weights2 u hs p m = map (\<lambda>t. softmax_row u (masked_scores u hs p m t)) [0..<length m]"

definition out2 :: "fpu \<Rightarrow> nat \<Rightarrow> head_params \<Rightarrow> matrix \<Rightarrow> matrix" where
  "out2 u hs p m = matmul2 u (weights2 u hs p m) (map (Dense_row u hs (value_kernel p)) m)"

section \<open>The training loop\<close>

text \<open>
  The training cell of the multi-headed self-attention notebook; the self-attention,
  transformer decoder and GPT-2 notebooks have the same cell, and the bigram notebook
  sets \<^verbatim>\<open>batch_size = 32\<close> after \<^verbatim>\<open>steps = 100\<close>:
  \<^verbatim>\<open>
  steps = 100

  for step in range(steps):
      rng_key, subkey = jax.random.split(rng_key)
      xb, yb = get_batch(train_ids, subkey, batch_size, block_size)

      loss, grads = value_and_grad(loss_fn, argnums=(0))(
          variables,
          model.apply,
          xb,
          yb
      )
      updates, opt_state = optimizer.update(grads, opt_state, variables)
      variables = optax.apply_updates(variables, updates)

      print(f"Epoch: {step}, Loss: {loss :.4f}")
  \<close>
  The functions of JAX and Optax, and \<^verbatim>\<open>get_batch\<close> and \<^verbatim>\<open>loss_fn\<close> of \<^verbatim>\<open>helper_funcs\<close>,
  are parameters, as are the types of keys, variables, optimizer states, batches
  and losses; they are taken to return. The names of the notebook that the cell
  reads or binds are the fields of a record; a name that is not bound yet is
  \<open>None\<close>. \<open>stdout\<close> holds the printed lines, each an epoch and a loss, and \<open>calls\<close> the
  calls of the parameters, in order.
\<close>

record ('key, 'vars, 'opt, 'batch, 'loss) training_lib =
  jax_random_split :: "'key \<Rightarrow> 'key \<times> 'key"
  get_batch :: "nat list \<Rightarrow> 'key \<Rightarrow> nat \<Rightarrow> nat \<Rightarrow> 'batch \<times> 'batch"
  value_and_grad_loss_fn :: "'vars \<Rightarrow> 'batch \<Rightarrow> 'batch \<Rightarrow> 'loss \<times> 'vars"
  optimizer_update :: "'vars \<Rightarrow> 'opt \<Rightarrow> 'vars \<Rightarrow> 'vars \<times> 'opt"
  optax_apply_updates :: "'vars \<Rightarrow> 'vars \<Rightarrow> 'vars"

datatype call = RandomSplit | GetBatch | ValueAndGrad | OptimizerUpdate | ApplyUpdates

record ('key, 'vars, 'opt, 'batch, 'loss) namespace =
  train_ids :: "nat list"
  batch_size :: nat
  block_size :: nat
  steps :: nat
  rng_key :: 'key
  variables :: 'vars
  opt_state :: 'opt
  step :: "nat option"
  subkey :: "'key option"
  xb :: "'batch option"
  yb :: "'batch option"
  loss :: "'loss option"
  grads :: "'vars option"
  updates :: "'vars option"
  stdout :: "(nat \<times> 'loss) list"
  calls :: "call list"

definition train_step ::
  "('key, 'vars, 'opt, 'batch, 'loss) training_lib \<Rightarrow>
   ('key, 'vars, 'opt, 'batch, 'loss) namespace \<Rightarrow> nat \<Rightarrow>
   ('key, 'vars, 'opt, 'batch, 'loss) namespace" where
  "train_step lib ns i =
     (let (rng_key', subkey') = jax_random_split lib (rng_key ns);
          (xb', yb') = get_batch lib (train_ids ns) subkey' (batch_size ns) (block_size ns);
          (loss', grads') = value_and_grad_loss_fn lib (variables ns) xb' yb';
          (updates', opt_state') = optimizer_update lib grads' (opt_state ns) (variables ns);
          variables' = optax_apply_updates lib (variables ns) updates'
      in ns\<lparr>step := Some i, rng_key := rng_key', subkey := Some subkey',
             xb := Some xb', yb := Some yb', loss := Some loss', grads := Some grads',
             updates := Some updates', opt_state := opt_state', variables := variables',
             stdout := stdout ns @ [(i, loss')],
             calls := calls ns @
               [RandomSplit, GetBatch, ValueAndGrad, OptimizerUpdate, ApplyUpdates]\<rparr>)"

text \<open>\<^verbatim>\<open>for step in range(steps)\<close>: the range is built once, from the value of \<^verbatim>\<open>steps\<close>
  when the loop starts.\<close>

definition training_loop ::
  "('key, 'vars, 'opt, 'batch, 'loss) training_lib \<Rightarrow>
   ('key, 'vars, 'opt, 'batch, 'loss) namespace \<Rightarrow>
   ('key, 'vars, 'opt, 'batch, 'loss) namespace" where
  "training_loop lib ns = fold (\<lambda>i ns. train_step lib ns i) [0..<steps ns] ns"

definition training_cell ::
  "('key, 'vars, 'opt, 'batch, 'loss) training_lib \<Rightarrow>
   ('key, 'vars, 'opt, 'batch, 'loss) namespace \<Rightarrow>
   ('key, 'vars, 'opt, 'batch, 'loss) namespace" where
  "training_cell lib ns = training_loop lib (ns\<lparr>steps := 100\<rparr>)"

definition training_cell_bigram ::
  "('key, 'vars, 'opt, 'batch, 'loss) training_lib \<Rightarrow>
   ('key, 'vars, 'opt, 'batch, 'loss) namespace \<Rightarrow>
   ('key, 'vars, 'opt, 'batch, 'loss) namespace" where
  "training_cell_bigram lib ns = training_loop lib (ns\<lparr>steps := 100, batch_size := 32\<rparr>)"

text \<open>
  What one iteration does to the key, the variables and the optimizer state, as a
  function of these three and of the data and the two sizes.
\<close>

definition carried_step ::
  "('key, 'vars, 'opt, 'batch, 'loss) training_lib \<Rightarrow> nat list \<Rightarrow> nat \<Rightarrow> nat \<Rightarrow>
   'key \<times> 'vars \<times> 'opt \<Rightarrow> 'key \<times> 'vars \<times> 'opt" where
  "carried_step lib ids bs bl kvo =
     (case kvo of (k, v, ost) \<Rightarrow>
        let (k', sk) = jax_random_split lib k;
            (b, tgt) = get_batch lib ids sk bs bl;
            (l, g) = value_and_grad_loss_fn lib v b tgt;
            (u, ost') = optimizer_update lib g ost v
        in (k', optax_apply_updates lib v u, ost'))"

text \<open>The names other than the key, the variables and the optimizer state.\<close>

definition other_names ::
  "('key, 'vars, 'opt, 'batch, 'loss) namespace \<Rightarrow>
   nat list \<times> nat \<times> nat \<times> nat \<times> nat option \<times> 'key option \<times> 'batch option \<times> 'batch option
     \<times> 'loss option \<times> 'vars option \<times> 'vars option" where
  "other_names ns =
     (train_ids ns, batch_size ns, block_size ns, steps ns, step ns, subkey ns, xb ns, yb ns,
      loss ns, grads ns, updates ns)"

text \<open>
  A library of stand-ins on natural numbers, and the names of the bigram notebook
  before its training cell, where \<^verbatim>\<open>xb\<close> and \<^verbatim>\<open>yb\<close> hold a batch of four rows of eight
  tokens: the stand-in for \<^verbatim>\<open>get_batch\<close> returns \<^verbatim>\<open>batch_size\<close> rows of \<^verbatim>\<open>block_size\<close> tokens
  and of the tokens that follow them, the shapes the notebook prints.
\<close>

definition demo_lib :: "(nat, nat, nat, nat list list, nat) training_lib" where
  "demo_lib =
     \<lparr>jax_random_split = (\<lambda>k. (Suc k, k)),
      get_batch = (\<lambda>ids k bs bl. (replicate bs (take bl ids), replicate bs (take bl (tl ids)))),
      value_and_grad_loss_fn = (\<lambda>v b tgt. (0, v)),
      optimizer_update = (\<lambda>g ost v. (g, ost)),
      optax_apply_updates = (\<lambda>v u. v + u)\<rparr>"

definition demo_names :: "(nat, nat, nat, nat list list, nat) namespace" where
  "demo_names =
     \<lparr>train_ids = [18, 47, 56, 57, 58, 1, 15, 47, 58], batch_size = 4, block_size = 8,
      steps = 0, rng_key = 128, variables = 1, opt_state = 0, step = None, subkey = None,
      xb = Some (replicate 4 [18, 47, 56, 57, 58, 1, 15, 47]),
      yb = Some (replicate 4 [47, 56, 57, 58, 1, 15, 47, 58]),
      loss = None, grads = None, updates = None, stdout = [], calls = []\<rparr>"

section \<open>The notebooks\<close>

text \<open>
  The five notebooks (bigram, scaled self-attention, multi-headed self-attention,
  transformer decoder, GPT-2) run the same cells around their model class:
  \<^verbatim>\<open>
  <the dataset cell, chars, stoi, itos, encode, decode>
  n = len(data)
  train_data = data[:int(n*0.9)]
  val_data = data[int(n*0.9):]
  train_ids = encode(train_data)
  val_ids = encode(val_data)
  train_ids = jnp.array(train_ids, dtype=jnp.uint16)
  val_ids = jnp.array(val_ids, dtype=jnp.uint16)
  print(decode(train_ids[:100]))
  rng_key = jax.random.PRNGKey(128)
  model = <the model class>(vocab_size, ...)
  variables = model.init(rng_key, dummy_x)
  index_seq = jnp.zeros(shape=(1,1), dtype=jnp.uint16)
  max_new_tokens = 100
  generated_indices = generate(variables, model.apply, index_seq, rng_key, vocab_size, 1, block_size, max_new_tokens)
  generated_indices = list(np.array(generated_indices[0]))
  print("Generated text: ")
  print(decode(generated_indices))
  optimizer = optax.adamw(learning_rate=1e-2)
  opt_state = optimizer.init(variables)
  <the training cell>
  <the generation cell again>
  \<close>
  They differ in \<^verbatim>\<open>batch_size\<close>, \<^verbatim>\<open>block_size\<close> and \<^verbatim>\<open>max_new_tokens\<close>. The bigram notebook
  draws a batch \<^verbatim>\<open>xb, yb\<close> with the first key before it builds the model, and sets
  \<^verbatim>\<open>batch_size = 32\<close> in its training cell. The scaled self-attention notebook splits
  \<^verbatim>\<open>rng_key\<close> five times in the cells that explain attention, before it builds the
  model. The statistics and shapes that the notebooks print besides are left out.

  The functions of the libraries and of \<^verbatim>\<open>helper_funcs\<close> are parameters:
  \<open>model_init\<close> and \<open>generate\<close> stand for \<^verbatim>\<open>model.init\<close> and \<^verbatim>\<open>generate\<close> with the model
  of the notebook, \<open>split_point\<close> for the floating-point computation \<^verbatim>\<open>int(n*0.9)\<close>.
  The conversion to \<^verbatim>\<open>uint16\<close> raises \<^verbatim>\<open>OverflowError\<close> for an index that does not fit,
  as NumPy 2 does. The names that the cells of a notebook bind and its training cell
  neither reads nor binds (\<^verbatim>\<open>data\<close>, \<^verbatim>\<open>chars\<close>, \<^verbatim>\<open>model\<close>, \<^verbatim>\<open>optimizer\<close> and the like) are not
  in the record of names.
\<close>

record ('key, 'vars, 'opt, 'batch, 'loss) notebook_lib =
  "('key, 'vars, 'opt, 'batch, 'loss) training_lib" +
  PRNGKey :: "nat \<Rightarrow> 'key"
  model_init :: "'key \<Rightarrow> 'vars"
  optimizer_init :: "'vars \<Rightarrow> 'opt"
  generate :: "'vars \<Rightarrow> 'key \<Rightarrow> nat \<Rightarrow> nat \<Rightarrow> nat \<Rightarrow> nat list"
  split_point :: "nat \<Rightarrow> nat"

record hyperparameters =
  title :: string
  hp_batch_size :: nat
  hp_block_size :: nat
  hp_max_new_tokens :: nat
  draws_batch_first :: bool
  sets_batch_size_32 :: bool
  explanatory_splits :: nat

definition bigram_notebook :: hyperparameters where
  "bigram_notebook =
     \<lparr>title = ''Bigram Language Model'', hp_batch_size = 4, hp_block_size = 8,
      hp_max_new_tokens = 100, draws_batch_first = True, sets_batch_size_32 = True,
      explanatory_splits = 0\<rparr>"

definition self_attention_notebook :: hyperparameters where
  "self_attention_notebook =
     \<lparr>title = ''Scaled Self-Attention'', hp_batch_size = 32, hp_block_size = 8,
      hp_max_new_tokens = 100, draws_batch_first = False, sets_batch_size_32 = False,
      explanatory_splits = 5\<rparr>"

definition multi_headed_notebook :: hyperparameters where
  "multi_headed_notebook =
     \<lparr>title = ''Multi-Headed Self-Attention'', hp_batch_size = 32, hp_block_size = 8,
      hp_max_new_tokens = 100, draws_batch_first = False, sets_batch_size_32 = False,
      explanatory_splits = 0\<rparr>"

definition transformer_decoder_notebook :: hyperparameters where
  "transformer_decoder_notebook =
     \<lparr>title = ''Transformer Decoder'', hp_batch_size = 32, hp_block_size = 8,
      hp_max_new_tokens = 50, draws_batch_first = False, sets_batch_size_32 = False,
      explanatory_splits = 0\<rparr>"

definition gpt2_notebook :: hyperparameters where
  "gpt2_notebook =
     \<lparr>title = ''GPT-2'', hp_batch_size = 16, hp_block_size = 32,
      hp_max_new_tokens = 20, draws_batch_first = False, sets_batch_size_32 = False,
      explanatory_splits = 0\<rparr>"

definition notebooks :: "hyperparameters list" where
  "notebooks =
     [bigram_notebook, self_attention_notebook, multi_headed_notebook,
      transformer_decoder_notebook, gpt2_notebook]"

definition to_uint16 :: "nat list \<Rightarrow> error + nat list" where
  "to_uint16 ids = (if list_all (\<lambda>i. i < 65536) ids then Inr ids else Inl OverflowError)"

record ('key, 'vars, 'opt, 'batch, 'loss) notebook_result =
  names :: "('key, 'vars, 'opt, 'batch, 'loss) namespace"
  val_ids :: "nat list"
  first_tokens_text :: string
  pre_training_text :: string
  post_training_text :: string

text \<open>The generation cell: the text it prints after the line \<^verbatim>\<open>Generated text: \<close>.\<close>

definition generation_cell ::
  "('key, 'vars, 'opt, 'batch, 'loss) notebook_lib \<Rightarrow> hyperparameters \<Rightarrow> string \<Rightarrow>
   'vars \<Rightarrow> 'key \<Rightarrow> nat \<Rightarrow> error + string" where
  "generation_cell lib hp data vars key block =
     decode data (generate lib vars key (vocab_size data) block (hp_max_new_tokens hp))"

definition notebook_cells ::
  "('key, 'vars, 'opt, 'batch, 'loss) notebook_lib \<Rightarrow> hyperparameters \<Rightarrow> string \<Rightarrow>
   error + ('key, 'vars, 'opt, 'batch, 'loss) notebook_result" where
  "notebook_cells lib hp data =
     (let n = length data;
          train_data = take (split_point lib n) data;
          val_data = drop (split_point lib n) data
      in case encode data train_data of Inl e \<Rightarrow> Inl e | Inr train_ids0 \<Rightarrow>
         case encode data val_data of Inl e \<Rightarrow> Inl e | Inr val_ids0 \<Rightarrow>
         case to_uint16 train_ids0 of Inl e \<Rightarrow> Inl e | Inr train_ids1 \<Rightarrow>
         case to_uint16 val_ids0 of Inl e \<Rightarrow> Inl e | Inr val_ids1 \<Rightarrow>
         case decode data (take 100 train_ids1) of Inl e \<Rightarrow> Inl e | Inr first_text \<Rightarrow>
         let key0 = PRNGKey lib 128;
             first_batch =
               (if draws_batch_first hp
                then Some (get_batch lib train_ids1 key0 (hp_batch_size hp) (hp_block_size hp))
                else None);
             key1 = ((\<lambda>k. fst (jax_random_split lib k)) ^^ explanatory_splits hp) key0;
             vars0 = model_init lib key1
         in case generation_cell lib hp data vars0 key1 (hp_block_size hp) of
              Inl e \<Rightarrow> Inl e
            | Inr pre_text \<Rightarrow>
                let ns = \<lparr>train_ids = train_ids1, batch_size = hp_batch_size hp,
                          block_size = hp_block_size hp, steps = 0, rng_key = key1,
                          variables = vars0, opt_state = optimizer_init lib vars0,
                          step = None,
                          subkey =
                            (case explanatory_splits hp of
                               0 \<Rightarrow> None
                             | Suc j \<Rightarrow>
                                 Some (snd (jax_random_split lib
                                   (((\<lambda>k. fst (jax_random_split lib k)) ^^ j) key0)))),
                          xb = map_option fst first_batch, yb = map_option snd first_batch,
                          loss = None, grads = None, updates = None,
                          stdout = [], calls = []\<rparr>;
                    ns = (if sets_batch_size_32 hp
                          then training_cell_bigram (training_lib.truncate lib) ns
                          else training_cell (training_lib.truncate lib) ns)
                in case generation_cell lib hp data (variables ns) (rng_key ns)
                          (block_size ns) of
                     Inl e \<Rightarrow> Inl e
                   | Inr post_text \<Rightarrow>
                       Inr \<lparr>names = ns, val_ids = val_ids1, first_tokens_text = first_text,
                            pre_training_text = pre_text, post_training_text = post_text\<rparr>)"

definition notebook ::
  "('key, 'vars, 'opt, 'batch, 'loss) notebook_lib \<Rightarrow> hyperparameters \<Rightarrow> env \<Rightarrow> filesystem \<Rightarrow>
   filesystem \<times> io_event list \<times>
     (error + ('key, 'vars, 'opt, 'batch, 'loss) notebook_result)" where
  "notebook lib hp env fs =
     (case dataset_cell env fs of
        (fs', events, Inl e) \<Rightarrow> (fs', events, Inl e)
      | (fs', events, Inr data) \<Rightarrow> (fs', events, notebook_cells lib hp data))"

text \<open>
  Stand-ins for the remaining functions, for the examples below: generation returns
  \<^verbatim>\<open>max_new_tokens\<close> times the index zero.
\<close>

definition demo_notebook_lib :: "(nat, nat, nat, nat list list, nat) notebook_lib" where
  "demo_notebook_lib =
     training_lib.extend demo_lib
       \<lparr>PRNGKey = (\<lambda>seed. seed), model_init = (\<lambda>k. 1), optimizer_init = (\<lambda>v. 0),
        generate = (\<lambda>v k vocab block n. replicate n 0),
        split_point = (\<lambda>n. 9 * n div 10)\<rparr>"

definition quiet_env :: env where
  "quiet_env =
     \<lparr>http_get = (\<lambda>u. Inr ''First Citizen''), open_write_error = (\<lambda>p. None),
      write_error = (\<lambda>p. None), open_read_error = (\<lambda>p. None), read_error = (\<lambda>p. None)\<rparr>"

chapter \<open>Properties\<close>

section \<open>Properties of the encoding\<close>

lemma fold_dict:
  "fold (\<lambda>kv m. m(fst kv \<mapsto> snd kv)) items m0 = m0 ++ map_of (rev items)"
proof (induction items arbitrary: m0)
  case Nil
  then show ?case by simp
next
  case (Cons kv items)
  have "m0(fst kv \<mapsto> snd kv) ++ map_of (rev items)
          = m0 ++ (map_of [kv] ++ map_of (rev items))"
    by (cases kv) (simp add: map_add_upd_left fun_eq_iff map_add_def split: option.splits)
  then show ?case using Cons.IH [of "m0(fst kv \<mapsto> snd kv)"] by (simp del: fun_upd_apply)
qed

lemma dict_of_distinct:
  assumes "distinct (map fst items)"
  shows "dict_of items = map_of items"
proof -
  have "map_of (rev items) = map_of items"
    using assms by (metis distinct_rev map_of_inject_set rev_map set_rev)
  then show ?thesis by (simp add: dict_of_def fold_dict)
qed

lemma enumerate_swap_zip:
  "map (\<lambda>(i, ch). (ch, i)) (List.enumerate 0 xs) = zip xs [0..<length xs]"
  by (rule nth_equalityI) (simp_all add: nth_enumerate_eq)

lemma enumerate_id_zip:
  "map (\<lambda>(i, ch). (i, ch)) (List.enumerate 0 xs) = zip [0..<length xs] xs"
  by (rule nth_equalityI) (simp_all add: nth_enumerate_eq)

lemma set_chars: "set (chars data) = set data"
  by (simp add: chars_def)

lemma distinct_chars: "distinct (chars data)"
  by (simp add: chars_def)

lemma sorted_chars: "sorted (chars data)"
  by (simp add: chars_def)

lemma stoi_map_of: "stoi data = map_of (zip (chars data) [0..<vocab_size data])"
  unfolding stoi_def enumerate_swap_zip vocab_size_def
  by (rule dict_of_distinct) (simp add: distinct_chars)

lemma itos_map_of: "itos data = map_of (zip [0..<vocab_size data] (chars data))"
  unfolding itos_def enumerate_id_zip vocab_size_def
  by (rule dict_of_distinct) simp

lemma itos_eq:
  "itos data j = (if j < vocab_size data then Some (chars data ! j) else None)"
proof (cases "j < vocab_size data")
  case True
  then show ?thesis
    using map_of_zip_nth [of "[0..<vocab_size data]" "chars data" j]
    by (simp add: itos_map_of vocab_size_def)
next
  case False
  then have "j \<notin> set [0..<vocab_size data]" by simp
  then have "map_of (zip [0..<vocab_size data] (chars data)) j = None"
    using map_of_zip_is_Some [of "[0..<vocab_size data]" "chars data" j]
    by (simp add: vocab_size_def)
  then show ?thesis using False by (simp add: itos_map_of)
qed

lemma stoi_nth: "i < vocab_size data \<Longrightarrow> stoi data (chars data ! i) = Some i"
  using map_of_zip_nth [of "chars data" "[0..<vocab_size data]" i]
  by (simp add: stoi_map_of vocab_size_def distinct_chars)

lemma stoi_None: "c \<notin> set data \<Longrightarrow> stoi data c = None"
  using map_of_zip_is_Some [of "chars data" "[0..<vocab_size data]" c]
  by (simp add: stoi_map_of vocab_size_def set_chars)

lemma stoi_Some:
  assumes "c \<in> set data"
  shows "\<exists>i. stoi data c = Some i \<and> i < vocab_size data \<and> chars data ! i = c"
proof -
  from assms have "c \<in> set (chars data)" by (simp add: set_chars)
  then obtain i where i: "i < length (chars data)" "chars data ! i = c"
    by (auto simp: in_set_conv_nth)
  then show ?thesis using stoi_nth [of i data] by (auto simp: vocab_size_def)
qed

lemma stoi_SomeD:
  assumes "stoi data c = Some i"
  shows "c \<in> set data \<and> i < vocab_size data \<and> chars data ! i = c"
proof (cases "c \<in> set data")
  case True
  then show ?thesis using stoi_Some [OF True] assms by auto
next
  case False
  then show ?thesis using stoi_None [OF False] assms by simp
qed

lemma encode_Inr_iff: "(\<exists>l. encode data s = Inr l) \<longleftrightarrow> set s \<subseteq> set data"
proof (induction s)
  case Nil
  then show ?case by simp
next
  case (Cons c s)
  show ?case
  proof (cases "stoi data c")
    case None
    then have "c \<notin> set data" using stoi_Some [of c data] by auto
    then show ?thesis using None by simp
  next
    case (Some i)
    then have "c \<in> set data" using stoi_SomeD by blast
    then show ?thesis using Some Cons.IH by (auto split: sum.splits)
  qed
qed

lemma encode_nth:
  "encode data s = Inr l \<Longrightarrow>
   length l = length s \<and> (\<forall>k<length s. l ! k < vocab_size data \<and> chars data ! (l ! k) = s ! k)"
proof (induction s arbitrary: l)
  case Nil
  then show ?case by simp
next
  case (Cons c s)
  from Cons.prems obtain i l' where i: "stoi data c = Some i" and l': "encode data s = Inr l'"
    and l: "l = i # l'"
    by (auto split: option.splits sum.splits)
  from stoi_SomeD [OF i] Cons.IH [OF l'] l show ?case
    by (auto simp: nth_Cons')
qed

lemma decode_encode: "encode data s = Inr l \<Longrightarrow> decode data l = Inr s"
proof (induction s arbitrary: l)
  case Nil
  then show ?case by simp
next
  case (Cons c s)
  from Cons.prems obtain i l' where i: "stoi data c = Some i" and l': "encode data s = Inr l'"
    and l: "l = i # l'"
    by (auto split: option.splits sum.splits)
  from stoi_SomeD [OF i] have "itos data i = Some c" by (simp add: itos_eq)
  then show ?case using Cons.IH [OF l'] l by simp
qed

lemma encode_KeyError: "\<not> set s \<subseteq> set data \<Longrightarrow> encode data s = Inl KeyError"
proof (induction s)
  case Nil
  then show ?case by simp
next
  case (Cons c s)
  show ?case
  proof (cases "stoi data c")
    case None
    then show ?thesis by simp
  next
    case (Some i)
    then have "c \<in> set data" using stoi_SomeD by blast
    with Cons.prems have "\<not> set s \<subseteq> set data" by simp
    then show ?thesis using Some Cons.IH by simp
  qed
qed

text \<open>
  Claim C3. \<open>chars data\<close> is the sorted list of the distinct characters of the dataset.
  For every string \<open>s\<close> whose characters all occur in the dataset, \<open>encode\<close> returns a
  list with one index per character, the index of that character in \<open>chars data\<close>, and
  \<open>decode\<close> of that list returns \<open>s\<close>.
\<close>

theorem encode_decode_roundtrip:
  assumes "set s \<subseteq> set data"
  shows "\<exists>l. encode data s = Inr l \<and> decode data l = Inr s \<and> length l = length s \<and>
           (\<forall>k<length s. l ! k < vocab_size data \<and> chars data ! (l ! k) = s ! k) \<and>
           sorted (chars data) \<and> distinct (chars data) \<and> set (chars data) = set data"
proof -
  from assms obtain l where l: "encode data s = Inr l" using encode_Inr_iff by blast
  show ?thesis
    using l decode_encode [OF l] encode_nth [OF l] sorted_chars distinct_chars set_chars
    by blast
qed

theorem encode_decode_roundtrip_witness:
  "set ''low'' \<subseteq> set ''hello world'' \<and> encode ''hello world'' ''low'' = Inr [4, 5, 7] \<and>
   decode ''hello world'' [4, 5, 7] = Inr ''low''"
proof -
  have h: "set ''low'' \<subseteq> set ''hello world''" by simp
  have e: "encode ''hello world'' ''low'' = Inr [4, 5, 7]" by code_simp
  from encode_decode_roundtrip [OF h] e show ?thesis using h by auto
qed

section \<open>Properties of the dataset cell\<close>

lemma dataset_cell_frame:
  "p \<noteq> input_file_path \<Longrightarrow> fst (dataset_cell env fs) p = fs p"
  by (auto simp: dataset_cell_def read_data_def open_write_def file_write_def
           split: sum.splits option.splits if_splits)

lemma dataset_cell_exists:
  "input_file_path \<in> dom fs \<Longrightarrow>
     fst (dataset_cell env fs) = fs \<and> filter is_write (fst (snd (dataset_cell env fs))) = []"
  by (auto simp: dataset_cell_def read_data_def split: sum.splits)

lemma dataset_cell_success:
  "snd (snd (dataset_cell env fs)) = Inr d \<Longrightarrow>
     (input_file_path \<in> dom fs \<longrightarrow>
        fst (snd (dataset_cell env fs)) =
          [Exists input_file_path, OpenRead input_file_path, Read input_file_path]
        \<and> (\<exists>txt. fs input_file_path = Some txt \<and> d = universal_newlines txt)
        \<and> fst (dataset_cell env fs) = fs) \<and>
     (input_file_path \<notin> dom fs \<longrightarrow>
        (\<exists>txt. http_get env data_url = Inr txt \<and>
           fst (snd (dataset_cell env fs)) =
             [Exists input_file_path, OpenWrite input_file_path, HttpGet data_url,
              Write input_file_path txt, OpenRead input_file_path, Read input_file_path]
           \<and> fst (dataset_cell env fs) = fs(input_file_path \<mapsto> txt)
           \<and> d = universal_newlines txt))"
  by (auto simp: dataset_cell_def read_data_def open_write_def file_write_def open_read_def
                 file_read_def
           split: sum.splits option.splits if_splits)

lemma dataset_cell_paths:
  "ev \<in> set (fst (snd (dataset_cell env fs))) \<Longrightarrow>
     event_path ev = Some input_file_path \<or> ev = HttpGet data_url"
  by (auto simp: dataset_cell_def read_data_def
           split: sum.splits option.splits if_splits)

lemma dataset_cell_writes:
  "length (filter is_write (fst (snd (dataset_cell env fs)))) \<le> 1 \<and>
   length (filter is_read (fst (snd (dataset_cell env fs)))) \<le> 1"
  by (auto simp: dataset_cell_def read_data_def
           split: sum.splits option.splits if_splits)

lemma dataset_cell_errors:
  "(input_file_path \<notin> dom fs \<and> open_write_error env input_file_path = Some e
      \<longrightarrow> snd (snd (dataset_cell env fs)) = Inl e) \<and>
   (input_file_path \<notin> dom fs \<and> open_write_error env input_file_path = None \<and>
    http_get env data_url = Inl e
      \<longrightarrow> snd (snd (dataset_cell env fs)) = Inl e) \<and>
   (input_file_path \<notin> dom fs \<and> open_write_error env input_file_path = None \<and>
    (\<exists>txt. http_get env data_url = Inr txt) \<and> write_error env input_file_path = Some e
      \<longrightarrow> snd (snd (dataset_cell env fs)) = Inl e) \<and>
   ((input_file_path \<in> dom fs \<or> (open_write_error env input_file_path = None \<and>
    (\<exists>txt. http_get env data_url = Inr txt) \<and> write_error env input_file_path = None)) \<and>
    open_read_error env input_file_path = Some e
      \<longrightarrow> snd (snd (dataset_cell env fs)) = Inl e) \<and>
   ((input_file_path \<in> dom fs \<or> (open_write_error env input_file_path = None \<and>
    (\<exists>txt. http_get env data_url = Inr txt) \<and> write_error env input_file_path = None)) \<and>
    open_read_error env input_file_path = None \<and> read_error env input_file_path = Some e
      \<longrightarrow> snd (snd (dataset_cell env fs)) = Inl e)"
  by (auto simp: dataset_cell_def read_data_def open_write_def file_write_def open_read_def
                 file_read_def
           split: sum.splits option.splits if_splits)

text \<open>
  Claim C4. No exception is caught: \<open>encode\<close> of a string with a character that does not
  occur in the dataset ends in \<^verbatim>\<open>KeyError\<close>, and in the dataset cell the exception of
  the first operation that fails (opening the file for writing, the HTTP request, the
  write, opening the file for reading, the read) is the exception that leaves the cell,
  and with it the notebook.
\<close>

theorem failures_propagate:
  "(c \<in> set s \<and> c \<notin> set data \<longrightarrow> encode data s = Inl KeyError) \<and>
   (input_file_path \<notin> dom fs \<and> open_write_error env input_file_path = Some e
      \<longrightarrow> snd (snd (dataset_cell env fs)) = Inl e) \<and>
   (input_file_path \<notin> dom fs \<and> open_write_error env input_file_path = None \<and>
    http_get env data_url = Inl e
      \<longrightarrow> snd (snd (dataset_cell env fs)) = Inl e) \<and>
   (input_file_path \<notin> dom fs \<and> open_write_error env input_file_path = None \<and>
    (\<exists>txt. http_get env data_url = Inr txt) \<and> write_error env input_file_path = Some e
      \<longrightarrow> snd (snd (dataset_cell env fs)) = Inl e) \<and>
   ((input_file_path \<in> dom fs \<or> (open_write_error env input_file_path = None \<and>
    (\<exists>txt. http_get env data_url = Inr txt) \<and> write_error env input_file_path = None)) \<and>
    open_read_error env input_file_path = Some e
      \<longrightarrow> snd (snd (dataset_cell env fs)) = Inl e) \<and>
   ((input_file_path \<in> dom fs \<or> (open_write_error env input_file_path = None \<and>
    (\<exists>txt. http_get env data_url = Inr txt) \<and> write_error env input_file_path = None)) \<and>
    open_read_error env input_file_path = None \<and> read_error env input_file_path = Some e
      \<longrightarrow> snd (snd (dataset_cell env fs)) = Inl e) \<and>
   (snd (snd (dataset_cell env fs)) = Inl e \<longrightarrow> snd (snd (notebook lib hp env fs)) = Inl e)"
proof -
  have "c \<in> set s \<and> c \<notin> set data \<longrightarrow> encode data s = Inl KeyError"
    using encode_KeyError [of s data] by auto
  moreover have "snd (snd (dataset_cell env fs)) = Inl e \<longrightarrow>
      snd (snd (notebook lib hp env fs)) = Inl e"
    by (simp add: notebook_def split: prod.splits sum.splits)
  ultimately show ?thesis using dataset_cell_errors [of fs env e] by blast
qed

theorem failures_propagate_witness:
  "CHR ''z'' \<in> set ''lazy'' \<and> CHR ''z'' \<notin> set ''hello world'' \<and>
   encode ''hello world'' ''lazy'' = Inl KeyError \<and>
   input_file_path \<notin> dom (Map.empty :: filesystem) \<and>
   snd (snd (dataset_cell
     \<lparr>http_get = (\<lambda>u. Inl RequestException), open_write_error = (\<lambda>p. None),
      write_error = (\<lambda>p. None), open_read_error = (\<lambda>p. None), read_error = (\<lambda>p. None)\<rparr>
     Map.empty)) = Inl RequestException \<and>
   snd (snd (notebook demo_notebook_lib gpt2_notebook
     \<lparr>http_get = (\<lambda>u. Inl RequestException), open_write_error = (\<lambda>p. None),
      write_error = (\<lambda>p. None), open_read_error = (\<lambda>p. None), read_error = (\<lambda>p. None)\<rparr>
     Map.empty)) = Inl RequestException"
  using failures_propagate [where c = "CHR ''z''" and s = "''lazy''" and data = "''hello world''"
    and fs = Map.empty and e = RequestException and lib = demo_notebook_lib
    and hp = gpt2_notebook
    and env = "\<lparr>http_get = (\<lambda>u. Inl RequestException), open_write_error = (\<lambda>p. None),
      write_error = (\<lambda>p. None), open_read_error = (\<lambda>p. None), read_error = (\<lambda>p. None)\<rparr>"]
  by simp

section \<open>Properties of the attention head\<close>

lemma length_Dense_row [simp]: "length (Dense_row u f W r) = f"
  by (simp add: Dense_row_def)

lemma column_transposed:
  assumes "s < length kb" "length (kb ! s) = h"
  shows "column s (map (\<lambda>j. column j kb) [0..<h]) = kb ! s"
  using assms by (auto simp: column_def intro: nth_equalityI)

lemma matmul2_transposed:
  assumes h: "0 < h" and f: "\<And>r. length (g r) = h"
  shows "matmul2 u (map f m) (map (\<lambda>j. column j (map g m)) [0..<ncols (map g m)])
           = map (\<lambda>t. map (\<lambda>s. dot u (f (m ! t)) (g (m ! s))) [0..<length m]) [0..<length m]"
proof (cases m)
  case Nil
  then show ?thesis by (simp add: matmul2_def)
next
  case (Cons r rs)
  then have nc: "ncols (map g m) = h" by (simp add: ncols_def f)
  have "[0..<h] = 0 # [Suc 0..<h]" using h by (simp add: upt_conv_Cons)
  then have nc2: "ncols (map (\<lambda>j. column j (map g m)) [0..<h]) = length m"
    by (simp add: ncols_def column_def)
  have col: "column s (map (\<lambda>j. column j (map g m)) [0..<h]) = g (m ! s)" if "s < length m" for s
    using column_transposed [of s "map g m" h] that by (simp add: f)
  show ?thesis
    unfolding nc matmul2_def nc2
    by (rule nth_equalityI) (simp_all add: col)
qed

lemma nth_matmul:
  "b < length a \<Longrightarrow> b < length c \<Longrightarrow> matmul u a c ! b = matmul2 u (a ! b) (c ! b)"
  by (simp add: matmul_def)

lemma length_matmul [simp]: "length (matmul u a c) = min (length a) (length c)"
  by (simp add: matmul_def)

lemma nrows_shape: "shape3 x B T C \<Longrightarrow> 0 < B \<Longrightarrow> nrows x = T"
  by (cases x) (auto simp: shape3_def nrows_def)


lemma masked_row:
  assumes "length r = T" "t < T"
  shows "map (\<lambda>(m, v). if m then v else NInf) (zip (tril T ! t) r)
           = map (\<lambda>s. if s \<le> t then r ! s else NInf) [0..<T]"
  using assms by (auto simp: tril_def intro!: nth_equalityI)

lemma masked_matrix:
  assumes "length a = T" "\<And>t. t < T \<Longrightarrow> length (a ! t) = T"
  shows "map (\<lambda>(mr, ar). map (\<lambda>(m, v). if m then v else NInf) (zip mr ar)) (zip (tril T) a)
           = map (\<lambda>t. map (\<lambda>s. if s \<le> t then a ! t ! s else NInf) [0..<T]) [0..<T]"
proof (rule nth_equalityI)
  show "length (map (\<lambda>(mr, ar). map (\<lambda>(m, v). if m then v else NInf) (zip mr ar))
             (zip (tril T) a))
          = length (map (\<lambda>t. map (\<lambda>s. if s \<le> t then a ! t ! s else NInf) [0..<T]) [0..<T])"
    using assms by (simp add: tril_def)
next
  fix t assume "t < length (map (\<lambda>(mr, ar). map (\<lambda>(m, v). if m then v else NInf) (zip mr ar))
             (zip (tril T) a))"
  then have t: "t < T" using assms by (simp add: tril_def)
  have lt: "length (tril T) = T" by (simp add: tril_def)
  show "map (\<lambda>(mr, ar). map (\<lambda>(m, v). if m then v else NInf) (zip mr ar)) (zip (tril T) a) ! t
          = map (\<lambda>t. map (\<lambda>s. if s \<le> t then a ! t ! s else NInf) [0..<T]) [0..<T] ! t"
    using t assms masked_row [of "a ! t" T t] by (simp add: lt)
qed

lemma zip_map_same: "zip (map f xs) (map g xs) = map (\<lambda>x. (f x, g x)) xs"
  by (induction xs) auto

lemma zip_replicate_map: "zip (replicate (length xs) c) (map g xs) = map (\<lambda>x. (c, g x)) xs"
  by (induction xs) auto

lemma weights2_row:
  assumes hs: "0 < hs" and m: "length m = T"
  shows "map (softmax_row u)
           (map (\<lambda>(mr, ar). map (\<lambda>(m, v). if m then v else NInf) (zip mr ar))
              (zip (tril T)
                 (map (map (\<lambda>v. fmul u v (rnd u (real hs powr (- 1 / 2)))))
                    (matmul2 u (map (Dense_row u hs (query_kernel p)) m)
                       (map (\<lambda>j. column j (map (Dense_row u hs (key_kernel p)) m))
                          [0..<ncols (map (Dense_row u hs (key_kernel p)) m)])))))
         = weights2 u hs p m"
proof -
  let ?c = "rnd u (real hs powr (- 1 / 2))"
  let ?sc = "\<lambda>t s. dot u (Dense_row u hs (query_kernel p) (m ! t))
                       (Dense_row u hs (key_kernel p) (m ! s))"
  have mm: "matmul2 u (map (Dense_row u hs (query_kernel p)) m)
              (map (\<lambda>j. column j (map (Dense_row u hs (key_kernel p)) m))
                 [0..<ncols (map (Dense_row u hs (key_kernel p)) m)])
            = map (\<lambda>t. map (\<lambda>s. ?sc t s) [0..<T]) [0..<T]"
    using matmul2_transposed [OF hs, of "Dense_row u hs (key_kernel p)" u
        "Dense_row u hs (query_kernel p)" m]
    by (simp add: m)
  have sc: "map (map (\<lambda>v. fmul u v ?c)) (map (\<lambda>t. map (\<lambda>s. ?sc t s) [0..<T]) [0..<T])
            = map (\<lambda>t. map (\<lambda>s. att_score u hs p m t s) [0..<T]) [0..<T]"
    by (simp add: att_score_def comp_def)
  have mk: "map (\<lambda>(mr, ar). map (\<lambda>(m, v). if m then v else NInf) (zip mr ar))
              (zip (tril T) (map (\<lambda>t. map (\<lambda>s. att_score u hs p m t s) [0..<T]) [0..<T]))
            = map (\<lambda>t. map (\<lambda>s. if s \<le> t then att_score u hs p m t s else NInf) [0..<T]) [0..<T]"
    by (subst masked_matrix [where T = T]) simp_all
  have sm: "map (softmax_row u)
              (map (\<lambda>t. map (\<lambda>s. if s \<le> t then att_score u hs p m t s else NInf) [0..<T]) [0..<T])
            = weights2 u hs p m"
    unfolding weights2_def masked_scores_def m by simp
  show ?thesis unfolding mm sc mk sm ..
qed

lemma Head_weights_closed:
  assumes hs: "0 < hs" and x: "shape3 x B T C"
    and k: "key_kernel p \<noteq> []" and q: "query_kernel p \<noteq> []"
  shows "Head_weights u hs p x = Inr (map (weights2 u hs p) x)"
proof -
  define W2 where "W2 = (\<lambda>m. map (softmax_row u)
           (map (\<lambda>(mr, ar). map (\<lambda>(m, v). if m then v else NInf) (zip mr ar))
              (zip (tril (nrows x))
                 (map (map (\<lambda>v. fmul u v (rnd u (real hs powr (- 1 / 2)))))
                    (matmul2 u (map (Dense_row u hs (query_kernel p)) m)
                       (map (\<lambda>j. column j (map (Dense_row u hs (key_kernel p)) m))
                          [0..<ncols (map (Dense_row u hs (key_kernel p)) m)]))))))"
  have T: "nrows x = length m" if "m \<in> set x" for m
  proof -
    from that x have "0 < B" by (cases x) (auto simp: shape3_def)
    with x have "nrows x = T" by (rule nrows_shape)
    with that x show ?thesis by (simp add: shape3_def)
  qed
  have W2: "W2 m = weights2 u hs p m" if "m \<in> set x" for m
    unfolding W2_def T [OF that] by (rule weights2_row [OF hs refl])
  have "softmax u (masked_fill (repeat_batch (tril (nrows x)) (length x))
          (scale u (matmul u (map (map (Dense_row u hs (query_kernel p))) x)
             (transpose_last (map (map (Dense_row u hs (key_kernel p))) x)))
             (rnd u (real hs powr (- 1 / 2))))
          NInf) = map W2 x"
    unfolding W2_def
    by (simp add: softmax_def masked_fill_def repeat_batch_def scale_def matmul_def
      transpose_last_def zip_map_same zip_replicate_map comp_def)
  also have "\<dots> = map (weights2 u hs p) x"
    by (rule map_cong [OF refl]) (rule W2)
  finally show ?thesis using hs k q by (simp add: Head_weights_def Dense_no_bias_def Let_def)
qed

lemma Head_closed:
  assumes hs: "0 < hs" and x: "shape3 x B T C"
    and k: "key_kernel p \<noteq> []" and q: "query_kernel p \<noteq> []" and v: "value_kernel p \<noteq> []"
  shows "Head u hs p x = Inr (map (out2 u hs p) x)"
proof -
  have "matmul u (map (weights2 u hs p) x) (map (map (Dense_row u hs (value_kernel p))) x)
          = map (out2 u hs p) x"
    by (simp add: matmul_def zip_map_same out2_def)
  then show ?thesis
    using v by (simp add: Head_def Head_weights_closed [OF hs x k q] Dense_no_bias_def)
qed

lemma head_params_nonempty:
  assumes "head_params_shape C hs p" "0 < C"
  shows "key_kernel p \<noteq> []" "query_kernel p \<noteq> []" "value_kernel p \<noteq> []"
  using assms by (auto simp: head_params_shape_def shape2_def)











lemma length_softmax_row [simp]: "length (softmax_row u r) = length r"
  by (simp add: softmax_row_def Let_def)

lemma length_masked_scores [simp]: "length (masked_scores u hs p m t) = length m"
  by (simp add: masked_scores_def)


lemma Dropout_deterministic: "Dropout u rate True keep inputs = inputs"
  by (simp add: Dropout_def)

lemma Head_weights_gpt2_eq: "Head_weights_gpt2 u hs rate rng pth p x = Head_weights u hs p x"
  by (simp add: Head_weights_gpt2_def Head_weights_def Dropout_deterministic Let_def
      split: sum.splits)

lemma Head_gpt2_eq: "Head_gpt2 u hs rate rng pth p x = Head u hs p x"
  by (simp add: Head_gpt2_def Head_def Head_weights_gpt2_eq)

lemma shape3_map:
  assumes "shape3 x B T C" "\<And>m. shape2 m T C \<Longrightarrow> shape2 (f m) T' C'"
  shows "shape3 (map f x) B T' C'"
  using assms unfolding shape3_def shape2_def by fastforce


lemma shape2_out2: "shape2 m T C \<Longrightarrow> shape2 (out2 u hs p m) T hs"
  by (cases m) (auto simp: shape2_def out2_def matmul2_def weights2_def ncols_def)




section \<open>Properties of the multi-headed block\<close>

lemma sequence_map_Inr: "sequence (map (\<lambda>i. Inr (f i)) js) = Inr (map f js)"
  by (induction js) auto

lemma MultiHeadedAttention_closed:
  assumes hs: "0 < hs" and x: "shape3 x B T C" and C: "0 < C"
    and ps: "\<forall>i<n. head_params_shape C hs (ps i)"
  shows "MultiHeadedAttention u n hs ps x
           = concatenate_last (map (\<lambda>i. map (out2 u hs (ps i)) x) [0..<n])"
proof -
  have eq: "map (\<lambda>i. Head u hs (ps i) x) [0..<n]
              = map (\<lambda>i. Inr (map (out2 u hs (ps i)) x)) [0..<n]"
  proof (rule map_cong [OF refl])
    fix i assume "i \<in> set [0..<n]"
    then have "head_params_shape C hs (ps i)" using ps by simp
    from head_params_nonempty [OF this C]
    show "Head u hs (ps i) x = Inr (map (out2 u hs (ps i)) x)"
      by (rule Head_closed [OF hs x])
  qed
  show ?thesis unfolding MultiHeadedAttention_def eq by (simp add: sequence_map_Inr)
qed

lemma length_concat_const:
  assumes "\<And>i. i < n \<Longrightarrow> length (f i) = k"
  shows "length (concat (map f [0..<n])) = n * k"
proof -
  have eq: "map (\<lambda>i. length (f i)) [0..<n] = map (\<lambda>i. k) [0..<n]"
    using assms by (intro map_cong) auto
  have "length (concat (map f [0..<n])) = sum_list (map (\<lambda>i. length (f i)) [0..<n])"
    by (simp add: length_concat comp_def)
  also have "\<dots> = sum_list (map (\<lambda>i. k) [0..<n])" by (simp only: eq)
  also have "\<dots> = n * k" by (simp add: sum_list_triv)
  finally show ?thesis .
qed

lemma shape3_nth_nth:
  assumes "shape3 a B T k" "b < B" "t < T"
  shows "length (a ! b ! t) = k"
proof -
  from assms have m: "a ! b \<in> set a" by (simp add: shape3_def)
  with assms have "length (a ! b) = T" by (simp add: shape3_def)
  with assms have "a ! b ! t \<in> set (a ! b)" by simp
  with m assms show ?thesis unfolding shape3_def by blast
qed

lemma concatenate_last_shape:
  assumes n: "0 < n" and a: "\<And>i. i < n \<Longrightarrow> shape3 (f i) B T k"
  shows "\<exists>out. concatenate_last (map f [0..<n]) = Inr out \<and> shape3 out B T (n * k)"
proof -
  have up: "[0..<n] = 0 # [Suc 0..<n]" using n by (simp add: upt_conv_Cons)
  have f0: "shape3 (f 0) B T k" using a n by simp
  define out where "out = map (\<lambda>b. map (\<lambda>t. concat (map (\<lambda>h. h ! b ! t) (map f [0..<n])))
                      [0..<length (f 0 ! b)]) [0..<length (f 0)]"
  obtain rest where r: "map f [0..<n] = f 0 # rest"
    using up by (metis list.simps(9))
  have c: "concatenate_last (map f [0..<n]) = Inr out"
    unfolding out_def concatenate_last_def r by simp
  have row: "length (concat (map (\<lambda>h. h ! b ! t) (map f [0..<n]))) = n * k"
    if "b < B" "t < T" for b t
  proof -
    have "length (f i ! b ! t) = k" if "i < n" for i
      using a [OF that] \<open>b < B\<close> \<open>t < T\<close> by (rule shape3_nth_nth)
    then show ?thesis unfolding map_map comp_def by (rule length_concat_const)
  qed
  have "shape3 out B T (n * k)"
    using f0 row unfolding out_def shape3_def by auto
  with c show ?thesis by blast
qed

text \<open>
  Claim C8, as amended. For every \<open>n_embed > 0\<close>, every \<open>num_heads\<close> that divides
  \<open>n_embed\<close>, \<open>head_size = n_embed div num_heads\<close> and every input of shape
  \<open>(B, T, n_embed)\<close>, \<open>MultiHeadedAttention\<close> with \<open>num_heads\<close> heads of size \<open>head_size\<close>
  (kernels of shape \<open>(n_embed, head_size)\<close>) returns an array of shape
  \<open>(B, T, n_embed)\<close>, which is also what the block built in
  \<^verbatim>\<open>AttentionLanguageModel.__call__\<close> returns; a single head of size \<open>n_embed\<close> returns an
  array of the same shape.
\<close>

theorem multi_head_shape:
  assumes ne: "0 < n_embed" and dv: "num_heads dvd n_embed"
    and hs: "head_size = n_embed div num_heads"
    and x: "shape3 x B T n_embed"
    and ps: "\<forall>i<num_heads. head_params_shape n_embed head_size (ps i)"
    and p1: "head_params_shape n_embed n_embed p"
  shows "\<exists>out out1. MultiHeadedAttention u num_heads head_size ps x = Inr out \<and>
           sa_heads u n_embed num_heads ps x = Inr out \<and>
           shape3 out B T n_embed \<and>
           Head u n_embed p x = Inr out1 \<and> shape3 out1 B T n_embed"
proof -
  from ne dv have nh: "0 < num_heads" by (cases "num_heads = 0") auto
  from dv hs have prod: "num_heads * head_size = n_embed" by simp
  with ne have hp: "0 < head_size" by (cases "head_size = 0") auto
  have "shape3 (map (out2 u head_size (ps i)) x) B T head_size" for i
    using x by (rule shape3_map) (rule shape2_out2)
  then obtain out where out: "concatenate_last (map (\<lambda>i. map (out2 u head_size (ps i)) x)
      [0..<num_heads]) = Inr out" and sh: "shape3 out B T (num_heads * head_size)"
    using concatenate_last_shape [OF nh, of "\<lambda>i. map (out2 u head_size (ps i)) x" B T head_size]
    by blast
  have m: "MultiHeadedAttention u num_heads head_size ps x = Inr out"
    using out by (simp add: MultiHeadedAttention_closed [OF hp x ne ps])
  have s: "sa_heads u n_embed num_heads ps x = Inr out"
    using m nh hs by (simp add: sa_heads_def)
  have h1: "Head u n_embed p x = Inr (map (out2 u n_embed p) x)"
    using head_params_nonempty [OF p1 ne] by (rule Head_closed [OF ne x])
  have "shape3 (map (out2 u n_embed p) x) B T n_embed"
    using x by (rule shape3_map) (rule shape2_out2)
  then show ?thesis using m s sh prod h1 by auto
qed

theorem multi_head_shape_witness:
  "(0::nat) < 2 \<and> (2::nat) dvd 2 \<and> (1::nat) = 2 div 2 \<and> shape3 [[[Fin 1, Fin 2]]] 1 1 2 \<and>
   head_params_shape 2 1 \<lparr>key_kernel = [[Fin 1], [Fin 1]], query_kernel = [[Fin 1], [Fin 1]],
     value_kernel = [[Fin 1], [Fin 1]]\<rparr> \<and>
   head_params_shape 2 2 \<lparr>key_kernel = [[Fin 1, Fin 0], [Fin 0, Fin 1]],
     query_kernel = [[Fin 1, Fin 0], [Fin 0, Fin 1]],
     value_kernel = [[Fin 1, Fin 0], [Fin 0, Fin 1]]\<rparr> \<and>
   (\<exists>out out1.
      MultiHeadedAttention float32_fpu 2 1
        (\<lambda>i. \<lparr>key_kernel = [[Fin 1], [Fin 1]], query_kernel = [[Fin 1], [Fin 1]],
           value_kernel = [[Fin 1], [Fin 1]]\<rparr>)
        [[[Fin 1, Fin 2]]] = Inr out \<and>
      shape3 out 1 1 2 \<and>
      Head float32_fpu 2 \<lparr>key_kernel = [[Fin 1, Fin 0], [Fin 0, Fin 1]],
        query_kernel = [[Fin 1, Fin 0], [Fin 0, Fin 1]],
        value_kernel = [[Fin 1, Fin 0], [Fin 0, Fin 1]]\<rparr> [[[Fin 1, Fin 2]]] = Inr out1 \<and>
      shape3 out1 1 1 2)"
proof -
  let ?q = "\<lparr>key_kernel = [[Fin 1], [Fin 1]], query_kernel = [[Fin 1], [Fin 1]],
    value_kernel = [[Fin 1], [Fin 1]]\<rparr>"
  let ?p = "\<lparr>key_kernel = [[Fin 1, Fin 0], [Fin 0, Fin 1]],
    query_kernel = [[Fin 1, Fin 0], [Fin 0, Fin 1]],
    value_kernel = [[Fin 1, Fin 0], [Fin 0, Fin 1]]\<rparr>"
  have h1: "(0::nat) < 2" by simp
  have h2: "(2::nat) dvd 2" by simp
  have h3: "(1::nat) = 2 div 2" by simp
  have h4: "shape3 [[[Fin 1, Fin 2]]] 1 1 2" by (simp add: shape3_def)
  have h5: "head_params_shape 2 1 ?q" by (simp add: head_params_shape_def shape2_def)
  have h5': "\<forall>i<2. head_params_shape 2 1 ((\<lambda>i. ?q) i)" using h5 by simp
  have h6: "head_params_shape 2 2 ?p" by (simp add: head_params_shape_def shape2_def)
  from multi_head_shape [OF h1 h2 h3 h4 h5' h6, where u = float32_fpu] h1 h2 h3 h4 h5 h6
  show ?thesis by blast
qed

text \<open>
  For \<open>n_embed = 0\<close> the claim as first stated fails: one head divides zero features,
  the head size is zero, and on an input of shape \<open>(1, 1, 0)\<close> the head raises
  \<^verbatim>\<open>ZeroDivisionError\<close>, in its first dense layer, which receives no feature; past the
  dense layers \<^verbatim>\<open>self.head_size**-0.5\<close> raises it too.
\<close>

theorem multi_head_shape_counterexample:
  "(1::nat) dvd 0 \<and> shape3 ([[[]]] :: array3) 1 1 0 \<and> head_params_shape 0 0 (no_heads 0) \<and>
   MultiHeadedAttention float32_fpu 1 (0 div 1) no_heads [[[]]] = Inl ZeroDivisionError \<and>
   sa_heads float32_fpu 0 1 no_heads [[[]]] = Inl ZeroDivisionError"
  by (simp add: shape3_def head_params_shape_def shape2_def no_heads_def sa_heads_def
      MultiHeadedAttention_def Head_def Head_weights_def Dense_no_bias_def Let_def)

section \<open>Properties of the GPT-2 network\<close>

lemma FeedForward_gpt2_eq:
  "FeedForward_gpt2 u n_embed rate rng pth p x = FeedForward u n_embed p x"
  by (simp add: FeedForward_gpt2_def FeedForward_def Dropout_deterministic split: sum.splits)

lemma MultiHeadedAttention_gpt2_eq:
  "MultiHeadedAttention_gpt2 u num_heads head_size n_embed rate rng pth p x
     = MultiHeadedAttention_proj u num_heads head_size n_embed p x"
  by (simp add: MultiHeadedAttention_gpt2_def MultiHeadedAttention_proj_def Head_gpt2_eq
      Dropout_deterministic split: sum.splits)

lemma Block_gpt2_eq:
  "Block_gpt2 u lib n_embed num_heads rate rng pth p x = Block u lib n_embed num_heads p x"
  by (simp add: Block_gpt2_def Block_def MultiHeadedAttention_gpt2_eq FeedForward_gpt2_eq
      Let_def split: sum.splits)

lemma run_blocks_cong:
  assumes "\<And>i x. block i x = block' i x"
  shows "run_blocks block js x = run_blocks block' js x"
  by (induction js arbitrary: x) (simp_all add: assms split: sum.splits)

lemma GPT2_eq:
  "GPT2 u lib vocab n_embed num_heads num_layers rate rng params index_seq
     = GPT2_without_dropout u lib vocab n_embed num_heads num_layers params index_seq"
proof -
  have "run_blocks (\<lambda>i. Block_gpt2 u lib n_embed num_heads rate rng [i] (blocks params i))
          [0..<num_layers] x
        = run_blocks (\<lambda>i. Block u lib n_embed num_heads (blocks params i)) [0..<num_layers] x"
    for x
    by (rule run_blocks_cong) (rule Block_gpt2_eq)
  then show ?thesis by (simp add: GPT2_def GPT2_without_dropout_def)
qed

text \<open>
  Claim C7. Every dropout layer of the GPT-2 notebook is constructed with
  \<^verbatim>\<open>deterministic=True\<close> and returns its input, whatever the rate and the sample. So
  the feed-forward network, the head and the multi-headed block equal those of the
  transformer decoder notebook, which has no dropout layer, and for all parameters
  and all inputs the forward pass of \<open>GPT2\<close> equals that of the same network without
  the dropout layers: it does not depend on the dropout rate or on the samples.
\<close>

theorem dropout_is_identity:
  "Dropout u rate True keep a = a \<and>
   FeedForward_gpt2 u n_embed rate rng pth fp x = FeedForward u n_embed fp x \<and>
   Head_gpt2 u head_size rate rng pth hp x = Head u head_size hp x \<and>
   MultiHeadedAttention_gpt2 u num_heads head_size n_embed rate rng pth mp x
     = MultiHeadedAttention_proj u num_heads head_size n_embed mp x \<and>
   Block_gpt2 u lib n_embed num_heads rate rng pth bp x = Block u lib n_embed num_heads bp x \<and>
   GPT2 u lib vocab n_embed num_heads num_layers rate rng params index_seq
     = GPT2_without_dropout u lib vocab n_embed num_heads num_layers params index_seq \<and>
   GPT2 u lib vocab n_embed num_heads num_layers rate rng params index_seq
     = GPT2 u lib vocab n_embed num_heads num_layers rate' rng' params index_seq"
  by (simp only: Dropout_deterministic FeedForward_gpt2_eq Head_gpt2_eq
      MultiHeadedAttention_gpt2_eq Block_gpt2_eq GPT2_eq simp_thms)

section \<open>Properties of the training loop\<close>

lemma train_step_frame:
  "train_ids (train_step lib ns i) = train_ids ns \<and>
   batch_size (train_step lib ns i) = batch_size ns \<and>
   block_size (train_step lib ns i) = block_size ns \<and>
   steps (train_step lib ns i) = steps ns"
  by (simp add: train_step_def Let_def split: prod.splits)

lemma train_step_carried:
  "(rng_key (train_step lib ns i), variables (train_step lib ns i), opt_state (train_step lib ns i))
     = carried_step lib (train_ids ns) (batch_size ns) (block_size ns)
         (rng_key ns, variables ns, opt_state ns)"
  by (simp add: train_step_def carried_step_def Let_def split: prod.splits)

lemma train_step_calls:
  "calls (train_step lib ns i)
     = calls ns @ [RandomSplit, GetBatch, ValueAndGrad, OptimizerUpdate, ApplyUpdates]"
  by (simp add: train_step_def Let_def split: prod.splits)

lemma train_step_stdout:
  "map fst (stdout (train_step lib ns i)) = map fst (stdout ns) @ [i]"
  by (simp add: train_step_def Let_def split: prod.splits)

lemma train_step_step: "step (train_step lib ns i) = Some i"
  by (simp add: train_step_def Let_def split: prod.splits)

lemma train_step_bound:
  "subkey (train_step lib ns i) \<noteq> None \<and> xb (train_step lib ns i) \<noteq> None \<and>
   yb (train_step lib ns i) \<noteq> None \<and> loss (train_step lib ns i) \<noteq> None \<and>
   grads (train_step lib ns i) \<noteq> None \<and> updates (train_step lib ns i) \<noteq> None"
  by (simp add: train_step_def Let_def split: prod.splits)

lemma fold_train_step:
  "train_ids (fold (\<lambda>i ns. train_step lib ns i) js ns) = train_ids ns \<and>
   batch_size (fold (\<lambda>i ns. train_step lib ns i) js ns) = batch_size ns \<and>
   block_size (fold (\<lambda>i ns. train_step lib ns i) js ns) = block_size ns \<and>
   steps (fold (\<lambda>i ns. train_step lib ns i) js ns) = steps ns \<and>
   calls (fold (\<lambda>i ns. train_step lib ns i) js ns)
     = calls ns @ concat (replicate (length js)
         [RandomSplit, GetBatch, ValueAndGrad, OptimizerUpdate, ApplyUpdates]) \<and>
   map fst (stdout (fold (\<lambda>i ns. train_step lib ns i) js ns)) = map fst (stdout ns) @ js \<and>
   (rng_key (fold (\<lambda>i ns. train_step lib ns i) js ns),
    variables (fold (\<lambda>i ns. train_step lib ns i) js ns),
    opt_state (fold (\<lambda>i ns. train_step lib ns i) js ns))
     = (carried_step lib (train_ids ns) (batch_size ns) (block_size ns) ^^ length js)
         (rng_key ns, variables ns, opt_state ns)"
proof (induction js arbitrary: ns)
  case Nil
  then show ?case by simp
next
  case (Cons j js)
  note IH = Cons.IH [of "train_step lib ns j"]
  note fr = train_step_frame [of lib ns j]
  show ?case
    using IH fr train_step_calls [of lib ns j] train_step_stdout [of lib ns j]
      train_step_carried [of lib ns j]
    by (simp add: funpow_swap1)
qed


lemma train_step_batch:
  "xb (train_step lib ns i)
     = Some (fst (get_batch lib (train_ids ns) (snd (jax_random_split lib (rng_key ns)))
                    (batch_size ns) (block_size ns))) \<and>
   yb (train_step lib ns i)
     = Some (snd (get_batch lib (train_ids ns) (snd (jax_random_split lib (rng_key ns)))
                    (batch_size ns) (block_size ns)))"
  by (simp add: train_step_def Let_def split: prod.splits)

lemma training_loop_batch:
  assumes "0 < steps ns"
  shows "\<exists>sk. xb (training_loop lib ns)
           = Some (fst (get_batch lib (train_ids ns) sk (batch_size ns) (block_size ns))) \<and>
         yb (training_loop lib ns)
           = Some (snd (get_batch lib (train_ids ns) sk (batch_size ns) (block_size ns)))"
proof -
  obtain n where n: "steps ns = Suc n" using assms by (cases "steps ns") auto
  define ns' where "ns' = fold (\<lambda>i ns. train_step lib ns i) [0..<n] ns"
  have l: "training_loop lib ns = train_step lib ns' n"
    by (simp add: training_loop_def n ns'_def)
  have fr: "train_ids ns' = train_ids ns" "batch_size ns' = batch_size ns"
    "block_size ns' = block_size ns"
    using fold_train_step [of lib "[0..<n]" ns] by (simp_all add: ns'_def)
  show ?thesis using train_step_batch [of lib ns' n] unfolding l fr by blast
qed

lemma training_loop_props:
  "calls (training_loop lib ns)
     = calls ns @ concat (replicate (steps ns)
         [RandomSplit, GetBatch, ValueAndGrad, OptimizerUpdate, ApplyUpdates]) \<and>
   map fst (stdout (training_loop lib ns)) = map fst (stdout ns) @ [0..<steps ns] \<and>
   train_ids (training_loop lib ns) = train_ids ns \<and>
   batch_size (training_loop lib ns) = batch_size ns \<and>
   block_size (training_loop lib ns) = block_size ns \<and>
   steps (training_loop lib ns) = steps ns \<and>
   (rng_key (training_loop lib ns), variables (training_loop lib ns),
    opt_state (training_loop lib ns))
     = (carried_step lib (train_ids ns) (batch_size ns) (block_size ns) ^^ steps ns)
         (rng_key ns, variables ns, opt_state ns)"
  using fold_train_step [of lib "[0..<steps ns]" ns] by (simp add: training_loop_def)

lemma training_loop_lines:
  "length (stdout (training_loop lib ns)) = length (stdout ns) + steps ns"
proof -
  have "length (map fst (stdout (training_loop lib ns)))
          = length (map fst (stdout ns) @ [0..<steps ns])"
    using training_loop_props [of lib ns] by (simp only:)
  then show ?thesis by simp
qed

lemma training_loop_last:
  assumes "steps ns = Suc n"
  shows "training_loop lib ns = train_step lib (fold (\<lambda>i ns. train_step lib ns i) [0..<n] ns) n"
  by (simp add: training_loop_def assms)

lemma training_loop_bound:
  assumes "steps ns = Suc n"
  shows "step (training_loop lib ns) = Some n \<and>
         subkey (training_loop lib ns) \<noteq> None \<and> xb (training_loop lib ns) \<noteq> None \<and>
         yb (training_loop lib ns) \<noteq> None \<and> loss (training_loop lib ns) \<noteq> None \<and>
         grads (training_loop lib ns) \<noteq> None \<and> updates (training_loop lib ns) \<noteq> None"
  unfolding training_loop_last [OF assms]
  by (simp add: train_step_step train_step_bound)

text \<open>
  Claim C2, as amended. The loop runs exactly \<open>steps\<close> iterations, whatever the
  library functions return: each iteration splits the key, draws one batch, computes
  the loss and its gradients, calls the optimizer's update once and applies the
  updates, in this order, and prints one line, for the epochs \<open>0, \<dots>, steps - 1\<close>. The
  loop leaves \<^verbatim>\<open>train_ids\<close>, \<^verbatim>\<open>batch_size\<close>, \<^verbatim>\<open>block_size\<close> and \<^verbatim>\<open>steps\<close> as they were. The key,
  the variables and the optimizer state after the loop are \<open>steps\<close> applications of
  \<open>carried_step\<close> to their values before it: they depend on no other name that the
  loop binds. The other names of the record, \<^verbatim>\<open>step\<close>, \<^verbatim>\<open>subkey\<close>, \<^verbatim>\<open>xb\<close>, \<^verbatim>\<open>yb\<close>, \<^verbatim>\<open>loss\<close>,
  \<^verbatim>\<open>grads\<close> and \<^verbatim>\<open>updates\<close>, are bound anew in every iteration. The training cell of
  every notebook runs the loop with \<open>steps = 100\<close>; after it \<^verbatim>\<open>step\<close> is 99 and the other
  names of the loop body are bound.
\<close>

theorem training_loop_iterations:
  "calls (training_loop lib ns)
     = calls ns @ concat (replicate (steps ns)
         [RandomSplit, GetBatch, ValueAndGrad, OptimizerUpdate, ApplyUpdates]) \<and>
   map fst (stdout (training_loop lib ns)) = map fst (stdout ns) @ [0..<steps ns] \<and>
   train_ids (training_loop lib ns) = train_ids ns \<and>
   batch_size (training_loop lib ns) = batch_size ns \<and>
   block_size (training_loop lib ns) = block_size ns \<and>
   steps (training_loop lib ns) = steps ns \<and>
   (rng_key (training_loop lib ns), variables (training_loop lib ns),
    opt_state (training_loop lib ns))
     = (carried_step lib (train_ids ns) (batch_size ns) (block_size ns) ^^ steps ns)
         (rng_key ns, variables ns, opt_state ns) \<and>
   steps (training_cell lib ns) = 100 \<and>
   steps (training_cell_bigram lib ns) = 100 \<and>
   length (stdout (training_cell lib ns)) = length (stdout ns) + 100 \<and>
   length (stdout (training_cell_bigram lib ns)) = length (stdout ns) + 100 \<and>
   step (training_cell lib ns) = Some 99 \<and>
   subkey (training_cell lib ns) \<noteq> None \<and> xb (training_cell lib ns) \<noteq> None \<and>
   yb (training_cell lib ns) \<noteq> None \<and> loss (training_cell lib ns) \<noteq> None \<and>
   grads (training_cell lib ns) \<noteq> None \<and> updates (training_cell lib ns) \<noteq> None"
proof -
  have "steps (ns\<lparr>steps := 100\<rparr>) = Suc 99" by simp
  from training_loop_bound [OF this, of lib]
  have bd: "step (training_cell lib ns) = Some 99 \<and>
   subkey (training_cell lib ns) \<noteq> None \<and> xb (training_cell lib ns) \<noteq> None \<and>
   yb (training_cell lib ns) \<noteq> None \<and> loss (training_cell lib ns) \<noteq> None \<and>
   grads (training_cell lib ns) \<noteq> None \<and> updates (training_cell lib ns) \<noteq> None"
    by (simp add: training_cell_def)
  have c: "steps (training_cell lib ns) = 100"
    using training_loop_props [of lib "ns\<lparr>steps := 100\<rparr>"] by (simp add: training_cell_def)
  have b: "steps (training_cell_bigram lib ns) = 100"
    using training_loop_props [of lib "ns\<lparr>steps := 100, batch_size := 32\<rparr>"]
    by (simp add: training_cell_bigram_def)
  have lc: "length (stdout (training_cell lib ns)) = length (stdout ns) + 100"
    using training_loop_lines [of lib "ns\<lparr>steps := 100\<rparr>"] by (simp add: training_cell_def)
  have lb: "length (stdout (training_cell_bigram lib ns)) = length (stdout ns) + 100"
    using training_loop_lines [of lib "ns\<lparr>steps := 100, batch_size := 32\<rparr>"]
    by (simp add: training_cell_bigram_def)
  show ?thesis using training_loop_props [of lib ns] c b lc lb bd by simp
qed

text \<open>
  The loop binds more names than the key, the variables and the optimizer state: in
  the bigram notebook \<^verbatim>\<open>xb\<close> holds a batch of four rows before the training cell and a
  batch of thirty-two rows after it.
\<close>

theorem training_loop_frame_counterexample:
  "xb (demo_names\<lparr>steps := 100, batch_size := 32\<rparr>)
     = Some (replicate 4 [18, 47, 56, 57, 58, 1, 15, 47]) \<and>
   xb (training_loop demo_lib (demo_names\<lparr>steps := 100, batch_size := 32\<rparr>))
     = Some (replicate 32 [18, 47, 56, 57, 58, 1, 15, 47]) \<and>
   other_names (training_loop demo_lib (demo_names\<lparr>steps := 100, batch_size := 32\<rparr>))
     \<noteq> other_names (demo_names\<lparr>steps := 100, batch_size := 32\<rparr>)"
proof -
  let ?ns = "demo_names\<lparr>steps := 100, batch_size := 32\<rparr>"
  have a: "xb ?ns = Some (replicate 4 [18, 47, 56, 57, 58, 1, 15, 47])"
    by (simp add: demo_names_def)
  have "0 < steps ?ns" by simp
  from training_loop_batch [OF this, of demo_lib]
  have b: "xb (training_loop demo_lib ?ns) = Some (replicate 32 [18, 47, 56, 57, 58, 1, 15, 47])"
    by (auto simp: demo_lib_def demo_names_def)
  have "replicate 32 [18, 47, 56, 57, 58, 1, 15, 47::nat] \<noteq> replicate 4 [18, 47, 56, 57, 58, 1, 15, 47]"
  proof
    assume "replicate 32 [18, 47, 56, 57, 58, 1, 15, 47::nat] = replicate 4 [18, 47, 56, 57, 58, 1, 15, 47]"
    then have "length (replicate 32 [18, 47, 56, 57, 58, 1, 15, 47::nat])
                 = length (replicate 4 [18, 47, 56, 57, 58, 1, 15, 47::nat])"
      by (rule arg_cong)
    then show False by simp
  qed
  with a b have "xb (training_loop demo_lib ?ns) \<noteq> xb ?ns" by simp
  then have "other_names (training_loop demo_lib ?ns) \<noteq> other_names ?ns"
    by (auto simp: other_names_def)
  with a b show ?thesis by blast
qed

section \<open>Properties of the notebooks\<close>

lemma notebook_fs: "fst (notebook lib hp env fs) = fst (dataset_cell env fs)"
  by (simp add: notebook_def split: prod.splits sum.splits)

lemma notebook_events: "fst (snd (notebook lib hp env fs)) = fst (snd (dataset_cell env fs))"
  by (simp add: notebook_def split: prod.splits sum.splits)

lemma notebook_Inr:
  "snd (snd (notebook lib hp env fs)) = Inr res \<longleftrightarrow>
     (\<exists>data. snd (snd (dataset_cell env fs)) = Inr data \<and> notebook_cells lib hp data = Inr res)"
  by (auto simp: notebook_def split: prod.splits sum.splits)

lemma training_cell_props:
  "steps (training_cell lib ns) = 100 \<and>
   calls (training_cell lib ns)
     = calls ns @ concat (replicate 100
         [RandomSplit, GetBatch, ValueAndGrad, OptimizerUpdate, ApplyUpdates]) \<and>
   map fst (stdout (training_cell lib ns)) = map fst (stdout ns) @ [0..<100] \<and>
   train_ids (training_cell lib ns) = train_ids ns \<and>
   batch_size (training_cell lib ns) = batch_size ns \<and>
   block_size (training_cell lib ns) = block_size ns \<and>
   (rng_key (training_cell lib ns), variables (training_cell lib ns),
    opt_state (training_cell lib ns))
     = (carried_step lib (train_ids ns) (batch_size ns) (block_size ns) ^^ 100)
         (rng_key ns, variables ns, opt_state ns)"
  using training_loop_props [of lib "ns\<lparr>steps := 100\<rparr>"]
  by (simp add: training_cell_def)

lemma training_cell_bigram_props:
  "steps (training_cell_bigram lib ns) = 100 \<and>
   calls (training_cell_bigram lib ns)
     = calls ns @ concat (replicate 100
         [RandomSplit, GetBatch, ValueAndGrad, OptimizerUpdate, ApplyUpdates]) \<and>
   map fst (stdout (training_cell_bigram lib ns)) = map fst (stdout ns) @ [0..<100] \<and>
   train_ids (training_cell_bigram lib ns) = train_ids ns \<and>
   batch_size (training_cell_bigram lib ns) = 32 \<and>
   block_size (training_cell_bigram lib ns) = block_size ns \<and>
   (rng_key (training_cell_bigram lib ns), variables (training_cell_bigram lib ns),
    opt_state (training_cell_bigram lib ns))
     = (carried_step lib (train_ids ns) 32 (block_size ns) ^^ 100)
         (rng_key ns, variables ns, opt_state ns)"
  using training_loop_props [of lib "ns\<lparr>steps := 100, batch_size := 32\<rparr>"]
  by (simp add: training_cell_bigram_def)

lemma to_uint16_Inr: "to_uint16 ids = Inr ids' \<Longrightarrow> ids' = ids"
  by (simp add: to_uint16_def split: if_splits)

lemma decode_length: "decode data l = Inr s \<Longrightarrow> length s = length l"
  by (induction l arbitrary: s) (auto split: option.splits sum.splits)

lemma notebook_cells_trained:
  fixes lib :: "('key, 'vars, 'opt, 'batch, 'loss) notebook_lib"
  assumes c: "notebook_cells lib hp data = Inr res"
  shows "\<exists>ids.
      (let key = ((\<lambda>k. fst (jax_random_split lib k)) ^^ explanatory_splits hp)
                    (PRNGKey lib 128);
           vars = model_init lib key;
           bs = (if sets_batch_size_32 hp then 32 else hp_batch_size hp);
           trained = (carried_step (training_lib.truncate lib) ids bs (hp_block_size hp) ^^ 100)
                       (key, vars, optimizer_init lib vars)
       in encode data (take (split_point lib (length data)) data) = Inr ids \<and>
          train_ids (names res) = ids \<and>
          (rng_key (names res), variables (names res), opt_state (names res)) = trained \<and>
          steps (names res) = 100 \<and>
          calls (names res) = concat (replicate 100
            [RandomSplit, GetBatch, ValueAndGrad, OptimizerUpdate, ApplyUpdates]) \<and>
          map fst (stdout (names res)) = [0..<100] \<and>
          decode data (generate lib vars key (vocab_size data) (hp_block_size hp)
            (hp_max_new_tokens hp)) = Inr (pre_training_text res) \<and>
          decode data (generate lib (fst (snd trained)) (fst trained) (vocab_size data)
            (hp_block_size hp) (hp_max_new_tokens hp)) = Inr (post_training_text res) \<and>
          length (post_training_text res)
            = length (generate lib (fst (snd trained)) (fst trained) (vocab_size data)
                (hp_block_size hp) (hp_max_new_tokens hp)))"
proof -
  let ?seed = "PRNGKey lib 128"
  let ?key = "((\<lambda>k. fst (jax_random_split lib k)) ^^ explanatory_splits hp) ?seed"
  let ?vars = "model_init lib ?key"
  let ?bs = "if sets_batch_size_32 hp then 32 else hp_batch_size hp"
  from c obtain ids where
    e: "encode data (take (split_point lib (length data)) data) = Inr ids"
    by (auto simp: notebook_cells_def Let_def split: sum.splits)
  let ?first_batch = "if draws_batch_first hp
      then Some (get_batch lib ids ?seed (hp_batch_size hp) (hp_block_size hp)) else None"
  define ns where "ns = \<lparr>train_ids = ids, batch_size = hp_batch_size hp,
      block_size = hp_block_size hp, steps = 0, rng_key = ?key,
      variables = ?vars, opt_state = optimizer_init lib ?vars, step = None,
      subkey = (case explanatory_splits hp of
                  0 \<Rightarrow> None
                | Suc j \<Rightarrow> Some (snd (jax_random_split lib
                    (((\<lambda>k. fst (jax_random_split lib k)) ^^ j) ?seed)))),
      xb = map_option fst ?first_batch, yb = map_option snd ?first_batch,
      loss = (None :: 'loss option), grads = None, updates = None, stdout = [], calls = []\<rparr>"
  let ?trained = "(carried_step (training_lib.truncate lib) ids ?bs (hp_block_size hp) ^^ 100)
                    (?key, ?vars, optimizer_init lib ?vars)"
  have n: "names res = (if sets_batch_size_32 hp
                        then training_cell_bigram (training_lib.truncate lib) ns
                        else training_cell (training_lib.truncate lib) ns)"
    and pre: "decode data (generate lib ?vars ?key (vocab_size data) (hp_block_size hp)
            (hp_max_new_tokens hp)) = Inr (pre_training_text res)"
    and post: "decode data (generate lib (variables (names res)) (rng_key (names res))
             (vocab_size data) (block_size (names res)) (hp_max_new_tokens hp))
             = Inr (post_training_text res)"
    using c e unfolding ns_def
    by (auto simp: notebook_cells_def generation_cell_def Let_def
        split: sum.splits if_splits dest!: to_uint16_Inr)
  have t: "(rng_key (names res), variables (names res), opt_state (names res)) = ?trained"
    and st: "steps (names res) = 100"
    and ca: "calls (names res) = concat (replicate 100
            [RandomSplit, GetBatch, ValueAndGrad, OptimizerUpdate, ApplyUpdates])"
    and so: "map fst (stdout (names res)) = [0..<100]"
    and ti: "train_ids (names res) = ids"
    and bl: "block_size (names res) = hp_block_size hp"
    using training_cell_props [of "training_lib.truncate lib" ns]
      training_cell_bigram_props [of "training_lib.truncate lib" ns]
    unfolding n by (simp_all add: ns_def)
  from t have kv: "rng_key (names res) = fst ?trained" "variables (names res) = fst (snd ?trained)"
    by (simp_all add: prod_eq_iff)
  have post': "decode data (generate lib (fst (snd ?trained)) (fst ?trained) (vocab_size data)
            (hp_block_size hp) (hp_max_new_tokens hp)) = Inr (post_training_text res)"
    using post by (simp only: kv bl)
  have len: "length (post_training_text res)
            = length (generate lib (fst (snd ?trained)) (fst ?trained) (vocab_size data)
                (hp_block_size hp) (hp_max_new_tokens hp))"
    using post' by (rule decode_length)
  show ?thesis
    unfolding Let_def
    using e ti t st ca so pre post' len by blast
qed

lemma decode_total:
  assumes "\<forall>i \<in> set l. i < vocab_size data"
  shows "\<exists>s. decode data l = Inr s"
  using assms by (induction l) (auto simp: itos_eq)

lemma encode_bound:
  assumes "encode data s = Inr l"
  shows "\<forall>i \<in> set l. i < vocab_size data"
  using encode_nth [OF assms] by (auto simp: in_set_conv_nth)

lemma to_uint16_fits:
  assumes "\<forall>i \<in> set ids. i < vocab_size data" "vocab_size data \<le> 65536"
  shows "to_uint16 ids = Inr ids"
  using assms by (fastforce simp: to_uint16_def list_all_iff)

lemma notebook_cells_succeeds:
  assumes v: "vocab_size data \<le> 65536"
    and g: "\<And>vars key block n. \<forall>i \<in> set (generate lib vars key (vocab_size data) block n).
              i < vocab_size data"
  shows "\<exists>res. notebook_cells lib hp data = Inr res"
proof -
  let ?k = "split_point lib (length data)"
  have "set (take ?k data) \<subseteq> set data" by (rule set_take_subset)
  then obtain tr where tr: "encode data (take ?k data) = Inr tr"
    using encode_Inr_iff by blast
  have "set (drop ?k data) \<subseteq> set data" by (rule set_drop_subset)
  then obtain va where va: "encode data (drop ?k data) = Inr va"
    using encode_Inr_iff by blast
  have utr: "to_uint16 tr = Inr tr" using encode_bound [OF tr] v by (rule to_uint16_fits)
  have uva: "to_uint16 va = Inr va" using encode_bound [OF va] v by (rule to_uint16_fits)
  have "\<forall>i \<in> set (take 100 tr). i < vocab_size data"
    using encode_bound [OF tr] by (meson in_set_takeD)
  then obtain ft where ft: "decode data (take 100 tr) = Inr ft"
    using decode_total by blast
  have gen: "\<exists>s. generation_cell lib hp data vars key block = Inr s" for vars key block
    unfolding generation_cell_def using g by (intro decode_total)
  show ?thesis
    unfolding notebook_cells_def Let_def tr va utr uva ft sum.case
    using gen by (auto split: sum.splits) (metis sum.distinct(1))+
qed

lemma demo_notebook:
  "\<exists>res. snd (snd (notebook demo_notebook_lib gpt2_notebook quiet_env Map.empty)) = Inr res"
proof -
  have d: "snd (snd (dataset_cell quiet_env Map.empty)) = Inr ''First Citizen''"
    by (simp add: dataset_cell_def quiet_env_def open_write_def file_write_def read_data_def
        open_read_def file_read_def)
  have v: "vocab_size ''First Citizen'' = 10" by code_simp
  have "\<exists>res. notebook_cells demo_notebook_lib gpt2_notebook ''First Citizen'' = Inr res"
    by (rule notebook_cells_succeeds)
      (simp_all add: v demo_notebook_lib_def training_lib.extend_def)
  then show ?thesis using d unfolding notebook_Inr by blast
qed


lemma notebook_corpus:
  assumes "snd (snd (notebook lib hp env fs)) = Inr res"
  shows "\<exists>content. fst (notebook lib hp env fs) input_file_path = Some content \<and>
           (input_file_path \<in> dom fs \<longrightarrow> fs input_file_path = Some content) \<and>
           (input_file_path \<notin> dom fs \<longrightarrow> http_get env data_url = Inr content) \<and>
           snd (snd (dataset_cell env fs)) = Inr (universal_newlines content) \<and>
           notebook_cells lib hp (universal_newlines content) = Inr res"
proof -
  from assms obtain data where d: "snd (snd (dataset_cell env fs)) = Inr data"
    and c: "notebook_cells lib hp data = Inr res"
    unfolding notebook_Inr by blast
  show ?thesis
  proof (cases "input_file_path \<in> dom fs")
    case True
    with dataset_cell_success [OF d] obtain content where
      "fs input_file_path = Some content" and "data = universal_newlines content"
      and "fst (dataset_cell env fs) = fs" by blast
    with d c True show ?thesis by (auto simp: notebook_fs)
  next
    case False
    with dataset_cell_success [OF d] obtain content where
      "http_get env data_url = Inr content" and "data = universal_newlines content"
      and "fst (dataset_cell env fs) = fs(input_file_path \<mapsto> content)" by blast
    with d c False show ?thesis by (auto simp: notebook_fs)
  qed
qed

text \<open>
  Claim C5. Whatever the hyperparameters, the library and the outside world, a
  notebook leaves every file other than \<^verbatim>\<open>./data/shakespeare_char/input.txt\<close> as it
  was, and every file operation it attempts is on that path. It attempts at most one
  write and at most one read. When the file exists it writes nothing and the file
  system is unchanged. A run that reaches the end of the notebook has done exactly
  this: when the file existed, one read of it; when it did not, one HTTP request, one
  write of the answer to the file, then one read of it. No cell after the dataset
  cell touches the file system, so the trained variables are never written to it.
\<close>

theorem file_io_frame:
  "(\<forall>p. p \<noteq> input_file_path \<longrightarrow> fst (notebook lib hp env fs) p = fs p) \<and>
   (input_file_path \<in> dom fs \<longrightarrow>
      fst (notebook lib hp env fs) = fs \<and>
      filter is_write (fst (snd (notebook lib hp env fs))) = []) \<and>
   (\<forall>ev \<in> set (fst (snd (notebook lib hp env fs))).
      event_path ev = Some input_file_path \<or> ev = HttpGet data_url) \<and>
   length (filter is_write (fst (snd (notebook lib hp env fs)))) \<le> 1 \<and>
   length (filter is_read (fst (snd (notebook lib hp env fs)))) \<le> 1 \<and>
   (\<forall>res. snd (snd (notebook lib hp env fs)) = Inr res \<longrightarrow>
      (input_file_path \<in> dom fs \<longrightarrow>
         fst (snd (notebook lib hp env fs)) =
           [Exists input_file_path, OpenRead input_file_path, Read input_file_path]) \<and>
      (input_file_path \<notin> dom fs \<longrightarrow>
         (\<exists>txt. http_get env data_url = Inr txt \<and>
            fst (snd (notebook lib hp env fs)) =
              [Exists input_file_path, OpenWrite input_file_path, HttpGet data_url,
               Write input_file_path txt, OpenRead input_file_path, Read input_file_path] \<and>
            fst (notebook lib hp env fs) = fs(input_file_path \<mapsto> txt))))"
proof (intro conjI allI impI ballI)
  fix p assume "p \<noteq> input_file_path"
  then show "fst (notebook lib hp env fs) p = fs p"
    by (simp add: notebook_fs dataset_cell_frame)
next
  assume "input_file_path \<in> dom fs"
  then show "fst (notebook lib hp env fs) = fs"
    using dataset_cell_exists [of fs env] by (simp add: notebook_fs)
next
  assume "input_file_path \<in> dom fs"
  then show "filter is_write (fst (snd (notebook lib hp env fs))) = []"
    using dataset_cell_exists [of fs env] by (simp add: notebook_events)
next
  fix ev assume "ev \<in> set (fst (snd (notebook lib hp env fs)))"
  then show "event_path ev = Some input_file_path \<or> ev = HttpGet data_url"
    using dataset_cell_paths [of ev env fs] by (simp add: notebook_events)
next
  show "length (filter is_write (fst (snd (notebook lib hp env fs)))) \<le> 1"
    using dataset_cell_writes [of env fs] by (simp add: notebook_events)
next
  show "length (filter is_read (fst (snd (notebook lib hp env fs)))) \<le> 1"
    using dataset_cell_writes [of env fs] by (simp add: notebook_events)
next
  fix res assume r: "snd (snd (notebook lib hp env fs)) = Inr res" and e: "input_file_path \<in> dom fs"
  from r obtain data where "snd (snd (dataset_cell env fs)) = Inr data"
    unfolding notebook_Inr by blast
  from dataset_cell_success [OF this] e
  show "fst (snd (notebook lib hp env fs)) =
           [Exists input_file_path, OpenRead input_file_path, Read input_file_path]"
    by (simp add: notebook_events)
next
  fix res assume r: "snd (snd (notebook lib hp env fs)) = Inr res" and e: "input_file_path \<notin> dom fs"
  from r obtain data where "snd (snd (dataset_cell env fs)) = Inr data"
    unfolding notebook_Inr by blast
  from dataset_cell_success [OF this] e
  show "\<exists>txt. http_get env data_url = Inr txt \<and>
            fst (snd (notebook lib hp env fs)) =
              [Exists input_file_path, OpenWrite input_file_path, HttpGet data_url,
               Write input_file_path txt, OpenRead input_file_path, Read input_file_path] \<and>
            fst (notebook lib hp env fs) = fs(input_file_path \<mapsto> txt)"
    unfolding notebook_events notebook_fs by blast
qed

theorem file_io_frame_witness:
  "''params.msgpack'' \<noteq> input_file_path \<and>
   fst (notebook demo_notebook_lib gpt2_notebook quiet_env Map.empty) ''params.msgpack'' = None \<and>
   input_file_path \<notin> dom (Map.empty :: filesystem) \<and>
   fst (snd (notebook demo_notebook_lib gpt2_notebook quiet_env Map.empty)) =
     [Exists input_file_path, OpenWrite input_file_path, HttpGet data_url,
      Write input_file_path ''First Citizen'', OpenRead input_file_path, Read input_file_path] \<and>
   input_file_path \<in> dom [input_file_path \<mapsto> ''First Citizen''] \<and>
   fst (notebook demo_notebook_lib gpt2_notebook quiet_env [input_file_path \<mapsto> ''First Citizen''])
     = [input_file_path \<mapsto> ''First Citizen''] \<and>
   filter is_write (fst (snd (notebook demo_notebook_lib gpt2_notebook quiet_env
     [input_file_path \<mapsto> ''First Citizen'']))) = []"
proof -
  have ne: "''params.msgpack'' \<noteq> input_file_path" by (simp add: input_file_path_def)
  have h: "http_get quiet_env data_url = Inr ''First Citizen''" by (simp add: quiet_env_def)
  note a = file_io_frame [of demo_notebook_lib gpt2_notebook quiet_env Map.empty]
  note b = file_io_frame [of demo_notebook_lib gpt2_notebook quiet_env
      "[input_file_path \<mapsto> ''First Citizen'']"]
  from a ne have 1: "fst (notebook demo_notebook_lib gpt2_notebook quiet_env Map.empty)
      ''params.msgpack'' = None" by simp
  from a demo_notebook h have 2: "fst (snd (notebook demo_notebook_lib gpt2_notebook quiet_env Map.empty)) =
     [Exists input_file_path, OpenWrite input_file_path, HttpGet data_url,
      Write input_file_path ''First Citizen'', OpenRead input_file_path, Read input_file_path]"
    by auto
  from b have 3: "fst (notebook demo_notebook_lib gpt2_notebook quiet_env [input_file_path \<mapsto> ''First Citizen''])
     = [input_file_path \<mapsto> ''First Citizen''] \<and>
   filter is_write (fst (snd (notebook demo_notebook_lib gpt2_notebook quiet_env
     [input_file_path \<mapsto> ''First Citizen'']))) = []" by simp
  from ne 1 2 3 show ?thesis by simp
qed

text \<open>
  Claim C6. The notebooks are the five of the list \<open>notebooks\<close>, one per stage. Each of
  them, when it runs to its end, has read its corpus from
  \<^verbatim>\<open>./data/shakespeare_char/input.txt\<close>, whose content is the answer of the tiny
  shakespeare URL when the file was missing, and has encoded the first part of it as
  the training data. Its key, variables and optimizer state after the training cell
  are 100 applications of the loop body, with the batch size and block size of the
  notebook, to the key with which the model was built, the variables that
  \<^verbatim>\<open>model.init\<close> returned and the optimizer state that \<^verbatim>\<open>optimizer.init\<close> returned for
  them; the training cell has made the five calls of the loop body 100 times and
  printed the lines of the epochs \<open>0, \<dots>, 99\<close>. The text it prints last is the decoding of
  the indices that \<^verbatim>\<open>generate\<close> returns for these trained variables, this key and
  \<^verbatim>\<open>max_new_tokens\<close> of the notebook, one character for each index. A notebook does run
  to its end when the dataset cell succeeds, the vocabulary fits \<^verbatim>\<open>uint16\<close> and
  \<^verbatim>\<open>generate\<close> returns indices below the vocabulary size. The notebooks train on
  batches of 32 rows of 8 tokens or of 16 rows of 32 tokens and sample 100, 50 or 20
  new tokens.
\<close>

theorem notebooks_train_then_sample:
  assumes hp: "hp \<in> set notebooks"
  shows "(\<forall>res. snd (snd (notebook lib hp env fs)) = Inr res \<longrightarrow>
            (\<exists>content ids.
               fst (notebook lib hp env fs) input_file_path = Some content \<and>
               (input_file_path \<in> dom fs \<longrightarrow> fs input_file_path = Some content) \<and>
               (input_file_path \<notin> dom fs \<longrightarrow> http_get env data_url = Inr content) \<and>
               (let data = universal_newlines content;
                    key = ((\<lambda>k. fst (jax_random_split lib k)) ^^ explanatory_splits hp)
                            (PRNGKey lib 128);
                    vars = model_init lib key;
                    bs = (if sets_batch_size_32 hp then 32 else hp_batch_size hp);
                    trained =
                      (carried_step (training_lib.truncate lib) ids bs (hp_block_size hp) ^^ 100)
                        (key, vars, optimizer_init lib vars)
                in encode data (take (split_point lib (length data)) data) = Inr ids \<and>
                   train_ids (names res) = ids \<and>
                   (rng_key (names res), variables (names res), opt_state (names res))
                     = trained \<and>
                   steps (names res) = 100 \<and>
                   calls (names res) = concat (replicate 100
                     [RandomSplit, GetBatch, ValueAndGrad, OptimizerUpdate, ApplyUpdates]) \<and>
                   map fst (stdout (names res)) = [0..<100] \<and>
                   decode data (generate lib vars key (vocab_size data) (hp_block_size hp)
                     (hp_max_new_tokens hp)) = Inr (pre_training_text res) \<and>
                   decode data (generate lib (fst (snd trained)) (fst trained) (vocab_size data)
                     (hp_block_size hp) (hp_max_new_tokens hp)) = Inr (post_training_text res) \<and>
                   length (post_training_text res)
                     = length (generate lib (fst (snd trained)) (fst trained) (vocab_size data)
                         (hp_block_size hp) (hp_max_new_tokens hp))))) \<and>
         (\<forall>data. snd (snd (dataset_cell env fs)) = Inr data \<and> vocab_size data \<le> 65536 \<and>
            (\<forall>vars key block n. \<forall>i \<in> set (generate lib vars key (vocab_size data) block n).
               i < vocab_size data) \<longrightarrow>
            (\<exists>res. snd (snd (notebook lib hp env fs)) = Inr res)) \<and>
         (if sets_batch_size_32 hp then 32 else hp_batch_size hp, hp_block_size hp,
          hp_max_new_tokens hp) \<in> {(32, 8, 100), (32, 8, 50), (16, 32, 20)}"
proof (intro conjI allI impI)
  fix res assume r: "snd (snd (notebook lib hp env fs)) = Inr res"
  from notebook_corpus [OF r] obtain content where
    f: "fst (notebook lib hp env fs) input_file_path = Some content"
    and i: "input_file_path \<in> dom fs \<longrightarrow> fs input_file_path = Some content"
    and h: "input_file_path \<notin> dom fs \<longrightarrow> http_get env data_url = Inr content"
    and c: "notebook_cells lib hp (universal_newlines content) = Inr res" by blast
  from notebook_cells_trained [OF c] f i h
  show "\<exists>content ids.
               fst (notebook lib hp env fs) input_file_path = Some content \<and>
               (input_file_path \<in> dom fs \<longrightarrow> fs input_file_path = Some content) \<and>
               (input_file_path \<notin> dom fs \<longrightarrow> http_get env data_url = Inr content) \<and>
               (let data = universal_newlines content;
                    key = ((\<lambda>k. fst (jax_random_split lib k)) ^^ explanatory_splits hp)
                            (PRNGKey lib 128);
                    vars = model_init lib key;
                    bs = (if sets_batch_size_32 hp then 32 else hp_batch_size hp);
                    trained =
                      (carried_step (training_lib.truncate lib) ids bs (hp_block_size hp) ^^ 100)
                        (key, vars, optimizer_init lib vars)
                in encode data (take (split_point lib (length data)) data) = Inr ids \<and>
                   train_ids (names res) = ids \<and>
                   (rng_key (names res), variables (names res), opt_state (names res))
                     = trained \<and>
                   steps (names res) = 100 \<and>
                   calls (names res) = concat (replicate 100
                     [RandomSplit, GetBatch, ValueAndGrad, OptimizerUpdate, ApplyUpdates]) \<and>
                   map fst (stdout (names res)) = [0..<100] \<and>
                   decode data (generate lib vars key (vocab_size data) (hp_block_size hp)
                     (hp_max_new_tokens hp)) = Inr (pre_training_text res) \<and>
                   decode data (generate lib (fst (snd trained)) (fst trained) (vocab_size data)
                     (hp_block_size hp) (hp_max_new_tokens hp)) = Inr (post_training_text res) \<and>
                   length (post_training_text res)
                     = length (generate lib (fst (snd trained)) (fst trained) (vocab_size data)
                         (hp_block_size hp) (hp_max_new_tokens hp)))"
    unfolding Let_def by blast
next
  fix data
  assume "snd (snd (dataset_cell env fs)) = Inr data \<and> vocab_size data \<le> 65536 \<and>
            (\<forall>vars key block n. \<forall>i \<in> set (generate lib vars key (vocab_size data) block n).
               i < vocab_size data)"
  then show "\<exists>res. snd (snd (notebook lib hp env fs)) = Inr res"
    unfolding notebook_Inr using notebook_cells_succeeds [of data lib hp] by blast
next
  show "(if sets_batch_size_32 hp then 32 else hp_batch_size hp, hp_block_size hp,
          hp_max_new_tokens hp) \<in> {(32, 8, 100), (32, 8, 50), (16, 32, 20)}"
  proof -
    from hp consider "hp = bigram_notebook" | "hp = self_attention_notebook"
      | "hp = multi_headed_notebook" | "hp = transformer_decoder_notebook"
      | "hp = gpt2_notebook"
      unfolding notebooks_def by auto
    then show ?thesis
      by cases (simp_all add: bigram_notebook_def self_attention_notebook_def
        multi_headed_notebook_def transformer_decoder_notebook_def gpt2_notebook_def)
  qed
qed

theorem notebooks_train_then_sample_witness:
  "gpt2_notebook \<in> set notebooks \<and>
   input_file_path \<notin> dom (Map.empty :: filesystem) \<and>
   snd (snd (dataset_cell quiet_env Map.empty)) = Inr ''First Citizen'' \<and>
   vocab_size ''First Citizen'' \<le> 65536 \<and>
   (\<exists>res. snd (snd (notebook demo_notebook_lib gpt2_notebook quiet_env Map.empty)) = Inr res \<and>
      fst (notebook demo_notebook_lib gpt2_notebook quiet_env Map.empty) input_file_path
        = Some ''First Citizen'' \<and>
      steps (names res) = 100 \<and> map fst (stdout (names res)) = [0..<100] \<and>
      length (post_training_text res) = 20)"
proof -
  have m: "gpt2_notebook \<in> set notebooks" by (simp add: notebooks_def)
  have e: "input_file_path \<notin> dom (Map.empty :: filesystem)" by simp
  have d: "snd (snd (dataset_cell quiet_env Map.empty)) = Inr ''First Citizen''"
    by (simp add: dataset_cell_def quiet_env_def open_write_def file_write_def read_data_def
        open_read_def file_read_def)
  have v: "vocab_size ''First Citizen'' = 10" by code_simp
  have g: "\<forall>vars key block n.
      \<forall>i \<in> set (generate demo_notebook_lib vars key (vocab_size ''First Citizen'') block n).
        i < vocab_size ''First Citizen''"
    by (simp add: v demo_notebook_lib_def training_lib.extend_def)
  have h: "http_get quiet_env data_url = Inr ''First Citizen''" by (simp add: quiet_env_def)
  have gen: "length (generate demo_notebook_lib vars key vocab block
      (hp_max_new_tokens gpt2_notebook)) = 20" for vars key vocab block
    by (simp add: demo_notebook_lib_def training_lib.extend_def gpt2_notebook_def)
  note t = notebooks_train_then_sample [OF m, of demo_notebook_lib quiet_env Map.empty]
  from t have "snd (snd (dataset_cell quiet_env Map.empty)) = Inr ''First Citizen'' \<and>
      vocab_size ''First Citizen'' \<le> 65536 \<and>
      (\<forall>vars key block n.
         \<forall>i \<in> set (generate demo_notebook_lib vars key (vocab_size ''First Citizen'') block n).
           i < vocab_size ''First Citizen'') \<longrightarrow>
      (\<exists>res. snd (snd (notebook demo_notebook_lib gpt2_notebook quiet_env Map.empty)) = Inr res)"
    by blast
  with d v g obtain res where
    r: "snd (snd (notebook demo_notebook_lib gpt2_notebook quiet_env Map.empty)) = Inr res"
    by auto
  from t r obtain content where
    f: "fst (notebook demo_notebook_lib gpt2_notebook quiet_env Map.empty) input_file_path
          = Some content"
    and c: "input_file_path \<notin> dom (Map.empty :: filesystem) \<longrightarrow>
          http_get quiet_env data_url = Inr content"
    and l: "steps (names res) = 100" "map fst (stdout (names res)) = [0..<100]"
      "length (post_training_text res) = 20"
    unfolding Let_def gen by blast
  from c e h have "content = ''First Citizen''" by simp
  with m e d v r f l show ?thesis by simp
qed

end

